theory Spec2Isabelle
  imports Complex_Main "HOL-Library.Multiset"
begin

section \<open>The reduce kernel\<close>

text \<open>
  The OpenCL kernel \<^verbatim>\<open>reduce\<close> of \<^verbatim>\<open>main.cc\<close> runs once per work-item. Inside one
  work-group the work-items meet at every \<^verbatim>\<open>barrier\<close>, so a work-group is a sequence of
  phases, and within a phase every work-item \<open>t = 0, \<dots>, m - 1\<close> performs its statement.
  The element type only needs \<open>+\<close> and \<open>0\<close>: nothing is assumed about rounding, so the
  definitions cover \<^verbatim>\<open>float\<close> addition (the type \<open>float\<close> below, at which the harness
  runs the kernel) as well as exact arithmetic.

  \<^verbatim>\<open>local float buff[BUFFSIZE]\<close>: with \<open>m \<le> BUFFSIZE\<close> only the slots \<open>0, \<dots>, m - 1\<close>
  are ever touched, so the model keeps these \<open>m\<close> slots; a launch with larger groups has
  no defined result (\<open>run_kernel\<close> below).
\<close>

definition BUFFSIZE :: nat where
  "BUFFSIZE = 1024"

text \<open>\<^verbatim>\<open>buff[t] = a[k * m + t]; barrier(CLK_LOCAL_MEM_FENCE);\<close>\<close>

definition load_local :: "'a list \<Rightarrow> nat \<Rightarrow> nat \<Rightarrow> 'a list" where
  "load_local a m k = map (\<lambda>t. a ! (k * m + t)) [0..<m]"

text \<open>
  One pass of the loop body:
  \<^verbatim>\<open>if (t < offset) { buff[t] += buff[t + offset]; } barrier(CLK_LOCAL_MEM_FENCE);\<close>
  executed by the work-items in the order of their local ids.
\<close>

definition fold_step :: "nat \<Rightarrow> nat \<Rightarrow> 'a::plus list \<Rightarrow> 'a list" where
  "fold_step m offset buff =
     fold (\<lambda>t b. if t < offset then b[t := b ! t + b ! (t + offset)] else b) [0..<m] buff"

text \<open>\<^verbatim>\<open>for (int offset = m / 2; offset > 0; offset /= 2) { ... }\<close>\<close>

function tree_fold :: "nat \<Rightarrow> nat \<Rightarrow> 'a::plus list \<Rightarrow> 'a list" where
  "tree_fold m offset buff =
     (if offset > 0 then tree_fold m (offset div 2) (fold_step m offset buff) else buff)"
  by pat_completeness auto
termination
  by (relation "measure (\<lambda>(m, offset, buff). offset)") auto

declare tree_fold.simps [simp del]

text \<open>The value \<^verbatim>\<open>buff[0]\<close> that work-item 0 of group \<open>k\<close> publishes.\<close>

definition group_sum :: "'a::plus list \<Rightarrow> nat \<Rightarrow> nat \<Rightarrow> 'a" where
  "group_sum a m k = tree_fold m (m div 2) (load_local a m k) ! 0"

text \<open>
  \<^verbatim>\<open>float sum = 0; for (int j = 0; j < l; j++) sum += result[j];\<close>
\<close>

definition combine :: "nat \<Rightarrow> 'a::{plus,zero} list \<Rightarrow> 'a" where
  "combine l result = fold (\<lambda>j sum. sum + result ! j) [0..<l] 0"

text \<open>
  One work-group \<open>k\<close>, from its first statement to its last. Work-item 0 of the group
  stores the group's sum in \<^verbatim>\<open>result[k]\<close>. \<^verbatim>\<open>barrier(CLK_GLOBAL_MEM_FENCE)\<close> then holds
  back the work-items of this group only: OpenCL has no barrier across work-groups. The
  work-item with global id 0, which is work-item 0 of group 0, goes on to add up
  \<^verbatim>\<open>result[0..l-1]\<close> as they are in global memory at that moment.
\<close>

definition work_group :: "'a::{plus,zero} list \<Rightarrow> nat \<Rightarrow> nat \<Rightarrow> nat \<Rightarrow> 'a list \<Rightarrow> 'a list" where
  "work_group a m l k result =
     (let result1 = result[k := group_sum a m k]
      in if k = 0 then result1[0 := combine l result1] else result1)"

text \<open>
  An execution of the kernel over \<open>l\<close> work-groups of \<open>m\<close> work-items. The runtime is
  free to run work-groups in any order, one after another or overlapping; \<open>order\<close> lists
  the groups in the order in which they run. Only \<^verbatim>\<open>result[0]\<close> is written twice and
  only work-item 0 reads what other groups write, so what a run can produce is fixed by
  which groups have published before work-item 0 reads: executing whole groups in a
  chosen order reaches every such outcome.
\<close>

definition reduce :: "nat list \<Rightarrow> 'a::{plus,zero} list \<Rightarrow> nat \<Rightarrow> nat \<Rightarrow> 'a list \<Rightarrow> 'a list" where
  "reduce order a m l result = fold (work_group a m l) order result"

text \<open>
  The order in which the work-groups run, told by which of the groups \<open>1, \<dots>, l - 1\<close>
  are \<open>early\<close>, that is, publish before work-item 0 starts its serial pass.
\<close>

definition run_order :: "(nat \<Rightarrow> bool) \<Rightarrow> nat \<Rightarrow> nat list" where
  "run_order early l = filter early [1..<l] @ 0 # filter (\<lambda>k. \<not> early k) [1..<l]"

section \<open>Single-precision numbers\<close>

text \<open>
  The \<^verbatim>\<open>float\<close> of the host and of the device: IEEE 754 binary32, with 24 significant
  bits, exponents from \<open>-126\<close> to 127 and gradual underflow. A finite number is given by
  its value; the sign of a zero is not kept (it shows in printed text only). Every
  result is rounded to the nearest representable number, ties to the even one, the
  rounding of C++ on the host and of OpenCL on the device.
\<close>

datatype float = Finite real | Infinity bool | NaN

text \<open>The number of binary digits of a positive integer.\<close>

function bit_length :: "int \<Rightarrow> int" where
  "bit_length n = (if n \<le> 0 then 0 else bit_length (n div 2) + 1)"
  by pat_completeness auto
termination
  by (relation "measure nat") auto

declare bit_length.simps [simp del]

text \<open>The \<open>e\<close> with \<open>2\<^sup>e \<le> \<bar>x\<bar> < 2\<^sup>e\<^sup>+\<^sup>1\<close>, for \<open>x \<noteq> 0\<close>.\<close>

definition exponent :: "real \<Rightarrow> int" where
  "exponent x =
     (if 1 \<le> \<bar>x\<bar> then bit_length \<lfloor>\<bar>x\<bar>\<rfloor> - 1
      else - bit_length (\<lceil>1 / \<bar>x\<bar>\<rceil> - 1))"

definition pow2 :: "int \<Rightarrow> real" where
  "pow2 q = (if 0 \<le> q then 2 ^ nat q else 1 / 2 ^ nat (- q))"

definition round_half_even :: "real \<Rightarrow> int" where
  "round_half_even x =
     (let f = \<lfloor>x\<rfloor>; r = x - of_int f
      in if r < 1 / 2 then f else if 1 / 2 < r then f + 1 else if even f then f else f + 1)"

text \<open>\<open>2\<^sup>1\<^sup>2\<^sup>8\<close>, the magnitude from which a rounded result is infinite.\<close>

definition overflow_threshold :: real where
  "overflow_threshold = 340282366920938463463374607431768211456"

text \<open>
  The binary32 number nearest to the real \<open>x\<close>: a multiple of \<open>2\<^sup>q\<close>, where \<open>q\<close> is 23
  below the exponent of \<open>x\<close> and not below \<open>-149\<close>; a result of magnitude \<open>2\<^sup>1\<^sup>2\<^sup>8\<close> is
  an overflow to infinity (\<open>Infinity True\<close> is \<open>+\<infinity>\<close>).
\<close>

definition round32 :: "real \<Rightarrow> float" where
  "round32 x =
     (let q = max (exponent x) (- 126) - 23;
          r = of_int (round_half_even (x / pow2 q)) * pow2 q
      in if overflow_threshold \<le> \<bar>r\<bar> then Infinity (0 < x) else Finite r)"

fun fadd :: "float \<Rightarrow> float \<Rightarrow> float" where
  "fadd (Finite x) (Finite y) = round32 (x + y)"
| "fadd (Finite x) (Infinity s) = Infinity s"
| "fadd (Infinity s) (Finite y) = Infinity s"
| "fadd (Infinity s) (Infinity t) = (if s = t then Infinity s else NaN)"
| "fadd NaN y = NaN"
| "fadd x NaN = NaN"

fun fneg :: "float \<Rightarrow> float" where
  "fneg (Finite x) = Finite (- x)"
| "fneg (Infinity s) = Infinity (\<not> s)"
| "fneg NaN = NaN"

fun fabs :: "float \<Rightarrow> float" where
  "fabs (Finite x) = Finite \<bar>x\<bar>"
| "fabs (Infinity s) = Infinity True"
| "fabs NaN = NaN"

text \<open>Comparison: every comparison with a NaN is false.\<close>

fun fless :: "float \<Rightarrow> float \<Rightarrow> bool" where
  "fless (Finite x) (Finite y) = (x < y)"
| "fless (Finite x) (Infinity s) = s"
| "fless (Infinity s) (Finite y) = (\<not> s)"
| "fless (Infinity s) (Infinity t) = (\<not> s \<and> t)"
| "fless NaN y = False"
| "fless x NaN = False"

text \<open>
  \<open>0\<close>, \<open>+\<close>, \<open>-\<close>, \<open>\<bar>_\<bar>\<close> and \<open><\<close> on \<open>float\<close> are these operations, so that the kernel
  and the harness below compute in binary32 where the program does.
\<close>

instantiation float :: "{zero, plus, minus, uminus, abs, ord}"
begin

definition zero_float :: float where
  "zero_float = Finite 0"

definition plus_float :: "float \<Rightarrow> float \<Rightarrow> float" where
  "plus_float x y = fadd x y"

definition uminus_float :: "float \<Rightarrow> float" where
  "uminus_float x = fneg x"

definition minus_float :: "float \<Rightarrow> float \<Rightarrow> float" where
  "minus_float x y = fadd x (fneg y)"

definition abs_float :: "float \<Rightarrow> float" where
  "abs_float x = fabs x"

definition less_float :: "float \<Rightarrow> float \<Rightarrow> bool" where
  "less_float x y = fless x y"

definition less_eq_float :: "float \<Rightarrow> float \<Rightarrow> bool" where
  "less_eq_float x y = (fless x y \<or> (x = y \<and> x \<noteq> NaN))"

instance ..

end

section \<open>Timing and bandwidth\<close>

text \<open>
  A \<^verbatim>\<open>time_point\<close> of \<^verbatim>\<open>std::chrono::high_resolution_clock\<close> is a count of clock ticks,
  a \<^verbatim>\<open>duration\<close> a difference of two. The tick of libstdc++ and libc++ is the nanosecond.
  \<^verbatim>\<open>duration_cast<microseconds>\<close> divides as C++ divides integers, towards zero.
\<close>

type_synonym time_point = int
type_synonym duration = int

definition ticks_per_microsecond :: int where
  "ticks_per_microsecond = 1000"

definition microseconds :: "duration \<Rightarrow> int" where
  "microseconds d = sgn d * (\<bar>d\<bar> div ticks_per_microsecond)"

text \<open>
  \<^verbatim>\<open>int\<close> has 32 bits. Signed overflow is undefined in C++; the model gives it the
  two's complement result of the machine's multiplication and addition. A compiler that
  exploits the undefined overflow may produce another value, and with it another sign of
  the bandwidth, so nothing below is stated about a volume that overflows except the
  value of this model. \<^verbatim>\<open>size_t\<close> has 64 bits.
\<close>

definition wrap32 :: "int \<Rightarrow> int" where
  "wrap32 x = (x + 2 ^ 31) mod 2 ^ 32 - 2 ^ 31"

definition size_t :: "int \<Rightarrow> int" where
  "size_t x = x mod 2 ^ 64"

definition sizeof_float :: int where
  "sizeof_float = 4"

text \<open>
  \<^verbatim>\<open>(n+n+n)*sizeof(float)\<close>: the sum is an \<^verbatim>\<open>int\<close>, converted to \<^verbatim>\<open>size_t\<close> for the
  product.
\<close>

definition bytes_moved :: "int \<Rightarrow> int" where
  "bytes_moved n = size_t (size_t (wrap32 (wrap32 (n + n) + n)) * sizeof_float)"

text \<open>
  \<^verbatim>\<open>double bandwidth(int n, time_point t0, time_point t1)\<close>. The \<^verbatim>\<open>double\<close> arithmetic
  of the last line is modelled by the real numbers it approximates.
\<close>

definition bandwidth :: "int \<Rightarrow> time_point \<Rightarrow> time_point \<Rightarrow> real" where
  "bandwidth n t0 t1 =
     (let dt = microseconds (t1 - t0)
      in if dt = 0 then 0
         else (real_of_int (bytes_moved n) * (1 / 10 ^ 9)) / (real_of_int dt * (1 / 10 ^ 6)))"

section \<open>Output and errors\<close>

text \<open>
  The calls into the OpenCL runtime that the program makes through the C++ wrapper, with
  the arguments that matter here: names, element counts, byte sizes, the global and the
  local size of a dispatch.
\<close>

datatype cl_call =
    Get_Platforms
  | Get_Platform_Name string
  | Create_Context
  | Get_Context_Devices
  | Get_Device_Name string
  | Create_Program
  | Build_Program
  | Get_Build_Log string
  | Create_Queue
  | Flush
  | Create_Kernel string
  | Copy_In nat
  | Create_Buffer nat
  | Set_Arg nat
  | Enqueue_NDRange_Kernel nat nat
  | Copy_Out nat

text \<open>
  What one \<^verbatim>\<open><<\<close> appends to a stream: a string, an integer, a \<^verbatim>\<open>double\<close>, a
  \<^verbatim>\<open>float\<close>, or the name of an OpenCL call.
\<close>

datatype piece =
  Text string | Integer int | Floating real | Single float | Operation cl_call

text \<open>
  The exceptions of the program: \<^verbatim>\<open>cl::Error\<close> with the failing OpenCL call (\<^verbatim>\<open>what()\<close>
  is its name) and its status code (\<^verbatim>\<open>err()\<close>), and \<^verbatim>\<open>std::runtime_error\<close> with its
  message.
\<close>

datatype error = Cl_Error cl_call int | Runtime_Error "piece list"

text \<open>
  What a function call comes to: it returns, it throws, or it runs into behaviour that
  neither C++ nor OpenCL defines.
\<close>

datatype 'a outcome = Returned 'a | Raised error | Undefined

text \<open>The arguments of \<^verbatim>\<open>print\<close>: a name, five durations, two bandwidths.\<close>

record row =
  name :: string
  dt :: "duration list"
  bw :: "real list"

definition print :: "row \<Rightarrow> piece list" where
  "print r = Text (name r)
     # concat (map (\<lambda>d. [Integer (microseconds d), Text ''us'']) (dt r))
     @ concat (map (\<lambda>b. [Floating b, Text ''GB/s'']) (bw r))
     @ [Text ''\<newline>'']"

definition print_column_names :: "piece list" where
  "print_column_names =
     [Text ''function'', Text ''OpenMP'', Text ''OpenCL total'', Text ''OpenCL copy-in'',
      Text ''OpenCL kernel'', Text ''OpenCL copy-out'', Text ''OpenMP bandwidth'',
      Text ''OpenCL bandwidth'', Text ''\<newline>'']"

section \<open>The environment of a run\<close>

text \<open>
  Everything the program takes from outside \<^verbatim>\<open>main.cc\<close>: the random numbers and the
  serial \<^verbatim>\<open>reduce\<close> of \<^verbatim>\<open>linear-algebra.hh\<close>, the readings of the clock in the order in
  which the program takes them, the status code with which the OpenCL runtime answers a
  call after the calls made so far (\<open>0\<close> is \<^verbatim>\<open>CL_SUCCESS\<close>; any other code makes the
  wrapper throw \<^verbatim>\<open>cl::Error\<close>), the platforms and devices found, the build log of a
  device, the content of freshly allocated device memory, and which work-groups publish
  early.
\<close>

record env =
  random_value :: "nat \<Rightarrow> float"
  host_reduce :: "float list \<Rightarrow> float"
  now :: "nat \<Rightarrow> time_point"
  runtime :: "cl_call list \<Rightarrow> cl_call \<Rightarrow> int"
  platforms :: "string list"
  devices :: "string list"
  build_log :: "string \<Rightarrow> string"
  device_memory :: "nat \<Rightarrow> float"
  early :: "nat \<Rightarrow> bool"

definition random_vector :: "env \<Rightarrow> nat \<Rightarrow> float list" where
  "random_vector env n = map (random_value env) [0..<n]"

text \<open>
  A sequence of runtime calls: each is recorded; the first that fails ends the sequence
  with a \<^verbatim>\<open>cl::Error\<close>.
\<close>

fun issue :: "(cl_call list \<Rightarrow> cl_call \<Rightarrow> int) \<Rightarrow> cl_call list \<Rightarrow> cl_call list
    \<Rightarrow> cl_call list \<times> error option" where
  "issue rt hist [] = (hist, None)"
| "issue rt hist (c # cs) =
     (if rt hist c = 0 then issue rt (hist @ [c]) cs
      else (hist @ [c], Some (Cl_Error c (rt hist c))))"

section \<open>The profiling harness\<close>

text \<open>
  What the dispatched kernel leaves in the result buffer of \<open>slots\<close> elements. The kernel
  indexes \<^verbatim>\<open>a\<close>, \<^verbatim>\<open>buff\<close> and \<^verbatim>\<open>result\<close> without checks; a range that takes it outside
  one of them has no defined result.
\<close>

definition run_kernel :: "env \<Rightarrow> float list \<Rightarrow> nat \<Rightarrow> nat \<Rightarrow> nat \<Rightarrow> float list option" where
  "run_kernel env a global_size local_size slots =
     (if global_size = 0 \<or> local_size = 0 \<or> global_size mod local_size \<noteq> 0
         \<or> BUFFSIZE < local_size \<or> length a < global_size
         \<or> slots < global_size div local_size
      then None
      else let l = global_size div local_size
           in Some (reduce (run_order (early env) l) a local_size l
                      (map (device_memory env) [0..<slots])))"

text \<open>The first argument of both \<^verbatim>\<open>bandwidth\<close> calls of \<^verbatim>\<open>profile_reduce\<close>: \<^verbatim>\<open>n*n+n+n\<close>.\<close>

definition reduce_volume :: "int \<Rightarrow> int" where
  "reduce_volume n = wrap32 (wrap32 (wrap32 (n * n) + n) + n)"

text \<open>
  The runtime calls of \<^verbatim>\<open>profile_reduce\<close> in the order of the program text: the flush,
  the kernel object, the input buffer filled from \<^verbatim>\<open>a\<close>, the result buffer of
  \<^verbatim>\<open>sizeof(float) * result.size()\<close> bytes, the two kernel arguments, the flush, the
  dispatch of \<open>n\<close> work-items in groups of \<open>loc_sz\<close>, the flush, and the copy of the
  result buffer to the host.
\<close>

definition reduce_calls :: "nat \<Rightarrow> nat \<Rightarrow> nat \<Rightarrow> cl_call list" where
  "reduce_calls n loc_sz slots =
     [Flush, Create_Kernel ''reduce'', Copy_In n, Create_Buffer (nat sizeof_float * slots),
      Set_Arg 0, Set_Arg 1, Flush, Enqueue_NDRange_Kernel n loc_sz, Flush, Copy_Out slots]"

text \<open>
  \<^verbatim>\<open>void profile_reduce(int n, OpenCL& opencl)\<close>, for \<open>n \<ge> 0\<close>. It returns the runtime
  calls made and, when it gets as far as \<^verbatim>\<open>print\<close>, the row it prints. The check
  \<^verbatim>\<open>std::abs(expected_result - sum) > 1e3\<close> subtracts and takes the absolute value in
  \<^verbatim>\<open>float\<close>; the comparison with the \<^verbatim>\<open>double\<close> 1000 is exact.
\<close>

definition profile_reduce :: "env \<Rightarrow> cl_call list \<Rightarrow> nat \<Rightarrow> cl_call list \<times> row outcome" where
  "profile_reduce env hist n =
     (let loc_sz = 128;
          a = random_vector env n;
          slots = n div loc_sz;
          t0 = now env 0;
          expected_result = host_reduce env a;
          t1 = now env 1;
          t2 = now env 2;
          t3 = now env 3;
          t4 = now env 4
      in case issue (runtime env) hist (reduce_calls n loc_sz slots) of
           (hist', Some e) \<Rightarrow> (hist', Raised e)
         | (hist', None) \<Rightarrow>
             (case run_kernel env a n loc_sz slots of
                None \<Rightarrow> (hist', Undefined)
              | Some result \<Rightarrow>
                  (let sum = result ! 0
                   in if \<bar>expected_result - sum\<bar> > Finite 1000
                      then (hist', Raised (Runtime_Error
                              [Text ''Invalid value: '', Single sum,
                               Text '', expected: '', Single expected_result]))
                      else (hist', Returned
                              \<lparr>name = ''reduce'',
                               dt = [t1 - t0, t4 - t1, t2 - t1, t3 - t2, t4 - t3],
                               bw = [bandwidth (reduce_volume (int n)) t0 t1,
                                     bandwidth (reduce_volume (int n)) t2 t3]\<rparr>))))"

text \<open>
  \<^verbatim>\<open>void profile_scan_inclusive(int n)\<close>: the host scan is timed, nothing runs on the
  device and nothing is checked. Its clock readings are the sixth to the tenth of the run.
\<close>

definition scan_volume :: "int \<Rightarrow> int" where
  "scan_volume n = wrap32 (wrap32 (wrap32 (n * n) + wrap32 (n * n)) + wrap32 (n * n))"

definition profile_scan_inclusive :: "env \<Rightarrow> nat \<Rightarrow> row" where
  "profile_scan_inclusive env n =
     (let t0 = now env 5; t1 = now env 6; t2 = now env 7; t3 = now env 8; t4 = now env 9
      in \<lparr>name = ''scan-inclusive'',
          dt = [t1 - t0, t4 - t1, t2 - t1, t3 - t2, t4 - t3],
          bw = [bandwidth (scan_volume (int n)) t0 t1,
                bandwidth (scan_volume (int n)) t2 t3]\<rparr>)"

text \<open>\<^verbatim>\<open>void opencl_main(OpenCL& opencl)\<close>: the runtime calls made, and what went to \<^verbatim>\<open>cout\<close>.\<close>

definition opencl_main :: "env \<Rightarrow> cl_call list \<Rightarrow> cl_call list \<times> piece list outcome" where
  "opencl_main env hist =
     (case profile_reduce env hist (1024 * 1024 * 10) of
        (hist', Returned r) \<Rightarrow>
          (hist', Returned (print_column_names @ print r
                             @ print (profile_scan_inclusive env (1024 * 1024 * 10))))
      | (hist', Raised e) \<Rightarrow> (hist', Raised e)
      | (hist', Undefined) \<Rightarrow> (hist', Undefined))"

section \<open>The program\<close>

text \<open>
  The handler of a failed build: \<^verbatim>\<open>for (const auto& device : devices)\<close> fetches the
  build log of the device and writes it to \<^verbatim>\<open>cerr\<close>. Fetching a log is a runtime call
  and may throw in its turn, which ends the loop.
\<close>

fun dump_build_logs :: "env \<Rightarrow> cl_call list \<Rightarrow> string list \<Rightarrow> piece list
    \<Rightarrow> cl_call list \<times> piece list \<times> error option" where
  "dump_build_logs env hist [] out = (hist, out, None)"
| "dump_build_logs env hist (device # ds) out =
     (let c = Get_Build_Log device
      in if runtime env hist c = 0
         then dump_build_logs env (hist @ [c]) ds (out @ [Text (build_log env device)])
         else (hist @ [c], out, Some (Cl_Error c (runtime env hist c))))"

text \<open>
  The outer \<^verbatim>\<open>try\<close> block of \<^verbatim>\<open>main\<close>: the runtime calls made, what went to \<^verbatim>\<open>cerr\<close>,
  and whether the block returned a value or threw. (The two lines written to \<^verbatim>\<open>clog\<close>
  are left out.) \<^verbatim>\<open>devices[0]\<close> is not checked: on an empty vector it is undefined.
  Falling out of the block leads to the \<^verbatim>\<open>return 0\<close> that ends \<^verbatim>\<open>main\<close>.
\<close>

definition main_try :: "env \<Rightarrow> cl_call list \<times> piece list \<times> int outcome" where
  "main_try env =
     (case issue (runtime env) [] [Get_Platforms] of
        (h1, Some e) \<Rightarrow> (h1, [], Raised e)
      | (h1, None) \<Rightarrow>
          (case platforms env of
             [] \<Rightarrow> (h1, [Text ''Unable to find OpenCL platforms\<newline>''], Returned 1)
           | platform # _ \<Rightarrow>
               (case issue (runtime env) h1
                       [Get_Platform_Name platform, Create_Context, Get_Context_Devices] of
                  (h2, Some e) \<Rightarrow> (h2, [], Raised e)
                | (h2, None) \<Rightarrow>
                    (case devices env of
                       [] \<Rightarrow> (h2, [], Undefined)
                     | device # _ \<Rightarrow>
                         (case issue (runtime env) h2
                                 [Get_Device_Name device, Create_Program] of
                            (h3, Some e) \<Rightarrow> (h3, [], Raised e)
                          | (h3, None) \<Rightarrow>
                              (if runtime env h3 Build_Program \<noteq> 0
                               then (case dump_build_logs env (h3 @ [Build_Program])
                                            (devices env) [] of
                                       (h4, out, None) \<Rightarrow>
                                         (h4, out, Raised (Cl_Error Build_Program
                                                     (runtime env h3 Build_Program)))
                                     | (h4, out, Some e) \<Rightarrow> (h4, out, Raised e))
                               else
                                 (case issue (runtime env) (h3 @ [Build_Program])
                                         [Create_Queue] of
                                    (h4, Some e) \<Rightarrow> (h4, [], Raised e)
                                  | (h4, None) \<Rightarrow>
                                      (case opencl_main env h4 of
                                         (h5, Returned _) \<Rightarrow> (h5, [], Returned 0)
                                       | (h5, Raised e) \<Rightarrow> (h5, [], Raised e)
                                       | (h5, Undefined) \<Rightarrow> (h5, [], Undefined)))))))))"

text \<open>What the two \<^verbatim>\<open>catch\<close> clauses of \<^verbatim>\<open>main\<close> write to \<^verbatim>\<open>cerr\<close>.\<close>

fun diagnostic :: "error \<Rightarrow> piece list" where
  "diagnostic (Cl_Error c code) =
     [Text ''OpenCL error in '', Operation c, Text ''('', Integer code, Text '')\<newline>'',
      Text ''Search cl.h file for error code ('', Integer code,
      Text '') to understand what it means:\<newline>'',
      Text ''https://github.com/KhronosGroup/OpenCL-Headers/blob/master/CL/cl.h\<newline>'']"
| "diagnostic (Runtime_Error what) = what @ [Text ''\<newline>'']"

text \<open>
  \<^verbatim>\<open>int main()\<close>: the exit code and what was written to \<^verbatim>\<open>cerr\<close>; \<open>None\<close> when the run
  has no defined behaviour.
\<close>

definition main :: "env \<Rightarrow> (int \<times> piece list) option" where
  "main env =
     (case main_try env of
        (_, err, Returned code) \<Rightarrow> Some (code, err)
      | (_, err, Raised e) \<Rightarrow> Some (1, err @ diagnostic e)
      | (_, err, Undefined) \<Rightarrow> None)"

section \<open>The bandwidth formula of the specification\<close>

text \<open>
  Follows the words of the specification, not the code: ``bandwidth is
  \<open>(3 \<times> N \<times> elementSize) / elapsedTime\<close>'', in gigabytes per second for an elapsed
  time in microseconds, with \<open>N\<close> the length of the input vector.
\<close>

definition specified_bandwidth :: "int \<Rightarrow> int \<Rightarrow> real" where
  "specified_bandwidth n elapsed =
     (real_of_int (3 * n * sizeof_float) * (1 / 10 ^ 9)) / (real_of_int elapsed * (1 / 10 ^ 6))"

section \<open>Sample environments\<close>

text \<open>The serial sum from left to right, in \<^verbatim>\<open>float\<close>.\<close>

definition serial_sum :: "float list \<Rightarrow> float" where
  "serial_sum a = fold (\<lambda>x sum. sum + x) a 0"

text \<open>
  Environments on which the program is run below. Every random number is \<open>v\<close>, the host
  computes the serial sum, the clock is read once per millisecond, device memory is zero
  before the kernel, and either every work-group \<open>1, \<dots>, l - 1\<close> publishes early
  (\<open>sync\<close>) or none does.
\<close>

definition sample_env :: "real \<Rightarrow> (cl_call list \<Rightarrow> cl_call \<Rightarrow> int) \<Rightarrow> bool \<Rightarrow> env" where
  "sample_env v rt sync =
     \<lparr>random_value = (\<lambda>i. Finite v), host_reduce = serial_sum,
      now = (\<lambda>k. 1000000 * int k), runtime = rt, platforms = [''platform''],
      devices = [''device''], build_log = (\<lambda>d. ''log of '' @ d),
      device_memory = (\<lambda>j. 0), early = (\<lambda>k. sync)\<rparr>"

text \<open>A runtime on which every call succeeds.\<close>

definition accepting :: "cl_call list \<Rightarrow> cl_call \<Rightarrow> int" where
  "accepting hist c = 0"

text \<open>
  A runtime that refuses a dispatch whose global size is not a multiple of the local size
  with \<^verbatim>\<open>CL_INVALID_WORK_GROUP_SIZE\<close> (\<open>-54\<close>), as OpenCL 1.2 prescribes.
\<close>

definition uniform_only :: "cl_call list \<Rightarrow> cl_call \<Rightarrow> int" where
  "uniform_only hist c =
     (case c of Enqueue_NDRange_Kernel g l \<Rightarrow> if g mod l = 0 then 0 else - 54 | _ \<Rightarrow> 0)"

text \<open>A runtime on which the build fails with \<^verbatim>\<open>CL_BUILD_PROGRAM_FAILURE\<close> (\<open>-11\<close>).\<close>

definition failing_build :: "cl_call list \<Rightarrow> cl_call \<Rightarrow> int" where
  "failing_build hist c = (case c of Build_Program \<Rightarrow> - 11 | _ \<Rightarrow> 0)"

text \<open>A runtime on which the first call of the harness, the flush, fails with \<open>-36\<close>.\<close>

definition failing_flush :: "cl_call list \<Rightarrow> cl_call \<Rightarrow> int" where
  "failing_flush hist c = (case c of Flush \<Rightarrow> - 36 | _ \<Rightarrow> 0)"

text \<open>A runtime on which the creation of the context fails with \<open>-1\<close>.\<close>

definition failing_context :: "cl_call list \<Rightarrow> cl_call \<Rightarrow> int" where
  "failing_context hist c = (case c of Create_Context \<Rightarrow> - 1 | _ \<Rightarrow> 0)"

text \<open>A runtime on which the creation of the queue fails with \<open>-6\<close>.\<close>

definition failing_queue :: "cl_call list \<Rightarrow> cl_call \<Rightarrow> int" where
  "failing_queue hist c = (case c of Create_Queue \<Rightarrow> - 6 | _ \<Rightarrow> 0)"

text \<open>
  A runtime on which the build fails with \<open>-11\<close> and the build log of the device
  \<open>second\<close> cannot be fetched (\<open>-33\<close>, \<^verbatim>\<open>CL_INVALID_DEVICE\<close>).
\<close>

definition failing_build_and_log :: "cl_call list \<Rightarrow> cl_call \<Rightarrow> int" where
  "failing_build_and_log hist c =
     (case c of
        Build_Program \<Rightarrow> - 11
      | Get_Build_Log device \<Rightarrow> if device = ''second'' then - 33 else 0
      | _ \<Rightarrow> 0)"

text \<open>An environment with the three devices \<open>device\<close>, \<open>second\<close> and \<open>third\<close>.\<close>

definition three_devices :: "(cl_call list \<Rightarrow> cl_call \<Rightarrow> int) \<Rightarrow> env" where
  "three_devices rt = (sample_env 1 rt True)\<lparr>devices := [''device'', ''second'', ''third'']\<rparr>"

text \<open>
  An environment whose clock is set back by 4 milliseconds between the first and the
  second reading.
\<close>

definition set_back :: env where
  "set_back = (sample_env 1 accepting True)
     \<lparr>now := (\<lambda>k. if k = 0 then 5000000 else 1000000 * int k)\<rparr>"

text \<open>
  An environment whose random numbers are all zero, whose device memory holds 5000 in
  every slot before the kernel, and in which work-group 0 runs first.
\<close>

definition stale :: env where
  "stale = (sample_env 0 accepting False)\<lparr>device_memory := (\<lambda>j. Finite 5000)\<rparr>"

text \<open>
  An environment whose 128 random numbers are \<open>2\<^sup>4\<^sup>0\<close>, \<open>-2\<^sup>-\<^sup>2\<^sup>0\<close>, \<open>-2\<^sup>4\<^sup>0\<close> and 1000 at
  the indices 0, 1, 32 and 64, and 0 elsewhere. From left to right they add up to 1000
  (the small number is lost in \<open>2\<^sup>4\<^sup>0\<close>); the kernel adds index 64 to index 0 first,
  where the 1000 is lost, and ends with \<open>-2\<^sup>-\<^sup>2\<^sup>0\<close>.
\<close>

definition absorbing :: env where
  "absorbing = (sample_env 0 accepting True)
     \<lparr>random_value :=
        (\<lambda>i. if i = 0 then Finite (2 ^ 40)
              else if i = 1 then Finite (- (1 / 2 ^ 20))
              else if i = 32 then Finite (- (2 ^ 40))
              else if i = 64 then Finite 1000
              else 0)\<rparr>"

section \<open>Properties of the kernel\<close>

subsection \<open>One work-group\<close>

lemma length_load_local: "length (load_local a m k) = m"
  by (simp add: load_local_def)

lemma fold_step_prefix:
  assumes "length buff = m" "2 * offset \<le> m" "i \<le> m"
  shows "fold (\<lambda>t b. if t < offset then b[t := b ! t + b ! (t + offset)] else b) [0..<i] buff
         = map (\<lambda>t. if t < offset \<and> t < i then buff ! t + buff ! (t + offset) else buff ! t) [0..<m]"
  using assms(3)
proof (induction i)
  case 0
  then show ?case using assms(1) by (auto intro!: nth_equalityI)
next
  case (Suc i)
  then have i: "i < m" and IH: "fold (\<lambda>t b. if t < offset then b[t := b ! t + b ! (t + offset)] else b) [0..<i] buff
         = map (\<lambda>t. if t < offset \<and> t < i then buff ! t + buff ! (t + offset) else buff ! t) [0..<m]"
    by simp_all
  show ?case
  proof (cases "i < offset")
    case True
    then have "i + offset < m" using assms(2) by simp
    with True i show ?thesis
      by (auto simp: IH intro!: nth_equalityI simp: nth_list_update less_Suc_eq)
  next
    case False
    then show ?thesis
      by (auto simp: IH intro!: nth_equalityI)
  qed
qed

lemma fold_step_eq:
  assumes "length buff = m" "2 * offset \<le> m"
  shows "fold_step m offset buff
         = map (\<lambda>t. if t < offset then buff ! t + buff ! (t + offset) else buff ! t) [0..<m]"
  unfolding fold_step_def using fold_step_prefix [OF assms, of m] assms(2)
  by (auto intro!: nth_equalityI)

lemma length_fold_step: "length (fold_step m offset buff) = length buff"
proof -
  have "length (fold (\<lambda>t b. if t < offset then b[t := b ! t + b ! (t + offset)] else b) ts buff) = length buff" for ts
    by (induction ts arbitrary: buff) auto
  then show ?thesis by (simp add: fold_step_def)
qed

lemma length_tree_fold: "length (tree_fold m offset buff) = length buff"
proof (induction m offset buff rule: tree_fold.induct)
  case (1 m offset buff)
  then show ?case
    by (subst tree_fold.simps) (simp add: length_fold_step)
qed

lemma sum_halves:
  fixes f :: "nat \<Rightarrow> 'a::comm_monoid_add"
  shows "(\<Sum>t<n. f t + f (t + n)) = (\<Sum>t<2 * n. f t)"
proof -
  have "(\<Sum>t<2 * n. f t) = (\<Sum>t = 0..<n. f t) + (\<Sum>t = n..<n + n. f t)"
    by (simp add: sum.atLeastLessThan_concat lessThan_atLeast0 mult_2)
  also have "(\<Sum>t = n..<n + n. f t) = (\<Sum>t = 0..<n. f (t + n))"
    using sum.shift_bounds_nat_ivl [of f 0 n n] by simp
  finally show ?thesis
    by (simp add: sum.distrib lessThan_atLeast0)
qed

lemma tree_fold_pow2:
  fixes buff :: "'a::comm_monoid_add list"
  assumes "length buff = m" "2 * 2 ^ q \<le> m"
  shows "tree_fold m (2 ^ q) buff ! 0 = (\<Sum>t<2 * 2 ^ q. buff ! t)"
  using assms
proof (induction q arbitrary: buff)
  case 0
  then have "tree_fold m (2 ^ 0) buff = fold_step m 1 buff"
    by (simp add: tree_fold.simps [of m "Suc 0"] tree_fold.simps [of m 0])
  moreover have "fold_step m 1 buff ! 0 = buff ! 0 + buff ! 1"
    using 0 by (simp add: fold_step_eq)
  ultimately show ?case
    by (simp add: lessThan_Suc numeral_2_eq_2 add.commute)
next
  case (Suc q)
  let ?b = "fold_step m (2 ^ Suc q) buff"
  have len: "length ?b = m" using Suc.prems by (simp add: length_fold_step)
  have "tree_fold m (2 ^ Suc q) buff = tree_fold m (2 ^ q) ?b"
    by (subst tree_fold.simps) simp
  also have "\<dots> ! 0 = (\<Sum>t<2 * 2 ^ q. ?b ! t)"
    using Suc.IH [OF len] Suc.prems by simp
  also have "\<dots> = (\<Sum>t<2 ^ Suc q. buff ! t + buff ! (t + 2 ^ Suc q))"
    using Suc.prems by (simp add: fold_step_eq)
  also have "\<dots> = (\<Sum>t<2 * 2 ^ Suc q. buff ! t)"
    by (rule sum_halves)
  finally show ?case .
qed

lemma group_sum_pow2:
  fixes a :: "'a::comm_monoid_add list"
  shows "group_sum a (2 ^ p) k = (\<Sum>t<2 ^ p. a ! (k * 2 ^ p + t))"
proof (cases p)
  case 0
  then show ?thesis
    by (simp add: group_sum_def tree_fold.simps [of _ 0] load_local_def)
next
  case (Suc q)
  have "group_sum a (2 ^ p) k = (\<Sum>t<2 * 2 ^ q. load_local a (2 ^ p) k ! t)"
    unfolding group_sum_def using Suc
    by (simp add: tree_fold_pow2 length_load_local)
  then show ?thesis using Suc by (simp add: load_local_def)
qed


lemma length_work_group: "length (work_group a m l k result) = length result"
  by (simp add: work_group_def Let_def)

lemma length_reduce: "length (reduce order a m l result) = length result"
  unfolding reduce_def
  by (induction order arbitrary: result) (simp_all add: length_work_group)

lemma work_group_other_slot:
  "j \<noteq> k \<Longrightarrow> j \<noteq> 0 \<Longrightarrow> work_group a m l k result ! j = result ! j"
  by (simp add: work_group_def Let_def)

lemma work_group_own_slot:
  "k \<noteq> 0 \<Longrightarrow> k < length result \<Longrightarrow> work_group a m l k result ! k = group_sum a m k"
  by (simp add: work_group_def Let_def)

lemma reduce_slot_untouched:
  "j \<notin> set order \<Longrightarrow> j \<noteq> 0 \<Longrightarrow> reduce order a m l result ! j = result ! j"
  unfolding reduce_def
  by (induction order arbitrary: result) (auto simp: work_group_other_slot)

lemma reduce_slot_published:
  "j \<in> set order \<Longrightarrow> j \<noteq> 0 \<Longrightarrow> j < length result
   \<Longrightarrow> reduce order a m l result ! j = group_sum a m j"
  unfolding reduce_def
proof (induction order arbitrary: result)
  case Nil
  then show ?case by simp
next
  case (Cons k ks)
  show ?case
  proof (cases "j \<in> set ks")
    case True
    with Cons show ?thesis by (simp add: length_work_group)
  next
    case False
    with Cons.prems have "k = j" by simp
    with False Cons.prems show ?thesis
      using reduce_slot_untouched [of j ks a m l "work_group a m l j result"]
      by (simp add: reduce_def work_group_own_slot)
  qed
qed

lemma combine_cong:
  "(\<And>j. j < l \<Longrightarrow> r ! j = r' ! j) \<Longrightarrow> combine l r = combine l r'"
proof -
  assume eq: "\<And>j. j < l \<Longrightarrow> r ! j = r' ! j"
  have "i \<le> l \<Longrightarrow> fold (\<lambda>j sum. sum + r ! j) [0..<i] z = fold (\<lambda>j sum. sum + r' ! j) [0..<i] z" for i z
    by (induction i) (simp_all add: eq)
  then show ?thesis by (simp add: combine_def)
qed

lemma combine_sum:
  fixes r :: "'a::comm_monoid_add list"
  shows "combine l r = (\<Sum>j<l. r ! j)"
proof -
  have "fold (\<lambda>j sum. sum + r ! j) [0..<i] 0 = (\<Sum>j<i. r ! j)" for i
    by (induction i) simp_all
  then show ?thesis by (simp add: combine_def)
qed

lemma work_group_0_slot_0:
  "0 < length result \<Longrightarrow>
   work_group a m l 0 result ! 0 = combine l (result[0 := group_sum a m 0])"
  by (simp add: work_group_def Let_def)

lemma reduce_slot_0:
  assumes "0 \<notin> set post" "0 < length result"
  shows "reduce (pre @ 0 # post) a m l result ! 0
         = combine l ((reduce pre a m l result)[0 := group_sum a m 0])"
proof -
  have "\<And>r. 0 \<notin> set post \<Longrightarrow> fold (work_group a m l) post r ! 0 = r ! 0"
    by (induction post) (auto simp: work_group_def Let_def)
  with assms show ?thesis
    by (simp add: reduce_def work_group_0_slot_0 length_reduce [unfolded reduce_def])
qed

lemma set_run_order: "0 < l \<Longrightarrow> set (run_order first l) = {..<l}"
  by (auto simp: run_order_def)

lemma distinct_run_order: "distinct (run_order first l)"
  by (auto simp: run_order_def)

subsection \<open>The work-groups together\<close>

lemma run_order_all: "run_order (\<lambda>k. True) l = [1..<l] @ [0]"
  by (simp add: run_order_def)

lemma run_order_none: "run_order (\<lambda>k. False) l = 0 # [1..<l]"
  by (simp add: run_order_def)

text \<open>
  When work-group 0 runs first, its work-item 0 adds to its own partial sum whatever the
  other slots of the result buffer held before the kernel.
\<close>

lemma reduce_slot_0_unsynchronised:
  "0 < length result \<Longrightarrow>
   reduce (run_order (\<lambda>k. False) l) a m l result ! 0
   = combine l (result[0 := group_sum a m 0])"
  using reduce_slot_0 [of "[1..<l]" "result" "[]" a m l]
  by (simp add: run_order_none reduce_def)

text \<open>
  When every other work-group has published before, work-item 0 adds up the partial sums
  of all groups, from left to right.
\<close>

lemma reduce_slot_0_synchronised:
  assumes "length result = l" "0 < l"
  shows "reduce (run_order (\<lambda>k. True) l) a m l result ! 0
         = combine l (map (group_sum a m) [0..<l])"
proof -
  let ?r = "reduce [1..<l] a m l result"
  have "reduce ([1..<l] @ 0 # []) a m l result ! 0 = combine l (?r[0 := group_sum a m 0])"
    using assms by (intro reduce_slot_0) simp_all
  also have "\<dots> = combine l (map (group_sum a m) [0..<l])"
  proof (rule combine_cong)
    fix j assume j: "j < l"
    show "?r[0 := group_sum a m 0] ! j = map (group_sum a m) [0..<l] ! j"
    proof (cases "j = 0")
      case True
      with assms show ?thesis by (simp add: length_reduce)
    next
      case False
      with j assms have "?r ! j = group_sum a m j"
        by (intro reduce_slot_published) simp_all
      with False j show ?thesis by simp
    qed
  qed
  finally show ?thesis by (simp add: run_order_all)
qed

lemma sum_groups:
  fixes a :: "'a::comm_monoid_add list"
  assumes "length a = l * m"
  shows "(\<Sum>k<l. \<Sum>t<m. a ! (k * m + t)) = sum_list a"
proof -
  have "(\<Sum>t<m. a ! (k * m + t)) = sum ((!) a) {k * m..<k * m + m}" for k
    using sum.shift_bounds_nat_ivl [of "(!) a" 0 "k * m" m]
    by (simp add: lessThan_atLeast0 add.commute)
  then have "(\<Sum>k<l. \<Sum>t<m. a ! (k * m + t)) = sum ((!) a) {..<l * m}"
    by (simp add: sum.nat_group)
  also have "\<dots> = sum_list a"
    using assms by (simp add: sum_list_sum_nth lessThan_atLeast0)
  finally show ?thesis .
qed

text \<open>
  In exact arithmetic, with a group size that is a power of two and work-group 0 the last
  to run, slot 0 ends with the sum of the whole input.
\<close>

lemma reduce_synchronised_total:
  fixes a :: "'a::comm_monoid_add list"
  assumes "length a = l * 2 ^ p" "length result = l" "0 < l"
  shows "reduce (run_order (\<lambda>k. True) l) a (2 ^ p) l result ! 0 = sum_list a"
  using assms
  by (simp add: reduce_slot_0_synchronised combine_sum group_sum_pow2 sum_groups)

text \<open>
  Claim C1 (for an input of \<open>N\<close> elements, \<open>N\<close> a positive multiple of 128, the kernel
  leaves the sum of all \<open>N\<close> elements in slot 0, up to rounding) does not hold of the
  kernel as written: nothing makes work-item 0 wait for the other work-groups. For 256
  elements equal to 1, result memory that is zero beforehand and work-group 0 running
  before work-group 1, slot 0 ends with 128, the sum of the first group alone, whereas
  the input sums to 256. All numbers involved are small integers, which \<^verbatim>\<open>float\<close>
  represents and adds without rounding.
\<close>

theorem reduce_group_0_first_loses_groups:
  "reduce (run_order (\<lambda>k. False) 2) (replicate 256 1) 128 2 [0, 0] ! 0 = (128 :: real)
   \<and> sum_list (replicate 256 (1 :: real)) = 256"
  by code_simp

text \<open>
  Claim C8 (permuting the input changes the result of the kernel by no more than the
  validation tolerance, which is 1000) does not hold of the kernel as written, for the
  same reason: with work-group 0 running first the result is the sum of the first 128
  elements only. The input of 128 times 2000 followed by 128 zeros gives 256000, its
  reversal gives 0.
\<close>

theorem reduce_group_0_first_not_permutation_invariant:
  "mset (rev (replicate 128 2000 @ replicate 128 (0 :: real)))
     = mset (replicate 128 2000 @ replicate 128 0)
   \<and> reduce (run_order (\<lambda>k. False) 2) (replicate 128 2000 @ replicate 128 0) 128 2 [0, 0] ! 0
       = (256000 :: real)
   \<and> reduce (run_order (\<lambda>k. False) 2) (rev (replicate 128 2000 @ replicate 128 0)) 128 2
         [0, 0] ! 0
       = (0 :: real)"
proof (intro conjI)
  show "mset (rev (replicate 128 2000 @ replicate 128 (0 :: real)))
          = mset (replicate 128 2000 @ replicate 128 0)"
    by (rule mset_rev)
  show "reduce (run_order (\<lambda>k. False) 2) (replicate 128 2000 @ replicate 128 0) 128 2
          [0, 0] ! 0 = (256000 :: real)"
    by code_simp
  show "reduce (run_order (\<lambda>k. False) 2) (rev (replicate 128 2000 @ replicate 128 0)) 128 2
          [0, 0] ! 0 = (0 :: real)"
    by code_simp
qed

text \<open>
  Claim C10 (after the kernel, slot 0 holds the total and every slot \<open>k \<ge> 1\<close> holds the
  partial sum of work-group \<open>k\<close>). The second half holds in every run
  (\<open>reduce_slot_published\<close>); the first half fails when work-group 0 runs first. For 128
  ones followed by 128 twos the partial sums are 128 and 256 and the total is 384, but
  the buffer ends as \<open>[128, 256]\<close>.
\<close>

theorem reduce_group_0_first_slot_0_not_total:
  "reduce (run_order (\<lambda>k. False) 2) (replicate 128 1 @ replicate 128 2) 128 2 [0, 0]
     = [128, 256 :: real]
   \<and> group_sum (replicate 128 1 @ replicate 128 (2 :: real)) 128 0 = 128
   \<and> group_sum (replicate 128 1 @ replicate 128 (2 :: real)) 128 1 = 256"
  by code_simp

subsection \<open>A kernel run over zeros\<close>

lemma fold_step_zeros:
  fixes buff :: "'a::{plus,zero} list"
  assumes "(0::'a) + 0 = 0" "length buff = m" "2 * offset \<le> m" "\<forall>x\<in>set buff. x = 0"
  shows "\<forall>x\<in>set (fold_step m offset buff). x = 0"
proof -
  have z: "buff ! t = 0" if "t < m" for t
    using that assms(2,4) by simp
  have "t < offset \<Longrightarrow> t + offset < m" for t
    using assms(3) by simp
  then show ?thesis
    unfolding fold_step_eq [OF assms(2,3)]
    by (auto simp: z assms(1))
qed

lemma tree_fold_zeros:
  fixes buff :: "'a::{plus,zero} list"
  assumes "(0::'a) + 0 = 0"
  shows "length buff = m \<Longrightarrow> 2 * 2 ^ q \<le> m \<Longrightarrow> \<forall>x\<in>set buff. x = 0
         \<Longrightarrow> \<forall>x\<in>set (tree_fold m (2 ^ q) buff). x = 0"
proof (induction q arbitrary: buff)
  case 0
  have "tree_fold m (2 ^ 0) buff = fold_step m 1 buff"
    by (simp add: tree_fold.simps [of m "Suc 0"] tree_fold.simps [of m 0])
  with 0 fold_step_zeros [OF assms, of buff m 1] show ?case by simp
next
  case (Suc q)
  let ?b = "fold_step m (2 ^ Suc q) buff"
  have "tree_fold m (2 ^ Suc q) buff = tree_fold m (2 ^ q) ?b"
    by (subst tree_fold.simps) simp
  moreover have "length ?b = m" using Suc.prems by (simp add: length_fold_step)
  moreover have "\<forall>x\<in>set ?b. x = 0"
    using Suc.prems by (intro fold_step_zeros [OF assms]) simp_all
  ultimately show ?case
    using Suc.IH [of ?b] Suc.prems by simp
qed

lemma group_sum_zeros:
  fixes a :: "'a::{plus,zero} list"
  assumes "(0::'a) + 0 = 0" "\<And>t. t < 2 ^ p \<Longrightarrow> a ! (k * 2 ^ p + t) = 0"
  shows "group_sum a (2 ^ p) k = 0"
proof (cases p)
  case 0
  with assms(2) [of 0] show ?thesis
    by (simp add: group_sum_def tree_fold.simps [of _ 0] load_local_def)
next
  case (Suc q)
  let ?b = "load_local a (2 ^ p) k"
  let ?r = "tree_fold (2 ^ p) (2 ^ q) ?b"
  have "\<forall>x\<in>set ?b. x = 0"
    using assms(2) by (auto simp: load_local_def)
  then have "\<forall>x\<in>set ?r. x = 0"
    using Suc by (intro tree_fold_zeros [OF assms(1)]) (simp_all add: length_load_local)
  moreover have "0 < length ?r"
    by (simp add: length_tree_fold length_load_local)
  ultimately have "?r ! 0 = 0" by (metis nth_mem)
  then show ?thesis using Suc by (simp add: group_sum_def)
qed

lemma combine_zeros:
  fixes r :: "'a::{plus,zero} list"
  assumes "(0::'a) + 0 = 0" "\<And>j. j < l \<Longrightarrow> r ! j = 0"
  shows "combine l r = 0"
proof -
  have "i \<le> l \<Longrightarrow> fold (\<lambda>j sum. sum + r ! j) [0..<i] 0 = 0" for i
    by (induction i) (simp_all add: assms)
  then show ?thesis by (simp add: combine_def)
qed

section \<open>Properties of timing and bandwidth\<close>

lemma microseconds_nonneg: "0 \<le> d \<Longrightarrow> 0 \<le> microseconds d"
  by (simp add: microseconds_def ticks_per_microsecond_def sgn_if)

lemma microseconds_of_nonneg: "0 \<le> d \<Longrightarrow> microseconds d = d div 1000"
  by (simp add: microseconds_def ticks_per_microsecond_def sgn_if)








text \<open>Without overflow, \<^verbatim>\<open>n*n+n+n\<close> is what it says.\<close>

lemma reduce_volume_small:
  "0 \<le> n \<Longrightarrow> n * n + n + n < 2 ^ 31 \<Longrightarrow> reduce_volume n = n * n + n + n"
proof -
  assume n: "0 \<le> n" "n * n + n + n < 2 ^ 31"
  have w: "wrap32 x = x" if "0 \<le> x" "x < 2 ^ 31" for x
    using that by (simp add: wrap32_def)
  have "0 \<le> n * n" by simp
  with n show ?thesis
    by (simp add: reduce_volume_def w)
qed

text \<open>
  At the one size the program runs, \<open>10 \<times> 1024 \<times> 1024\<close>, the product \<^verbatim>\<open>n*n\<close> is
  \<open>100 \<times> 2\<^sup>4\<^sup>0\<close>, which wraps to 0.
\<close>

lemma reduce_volume_actual: "reduce_volume (1024 * 1024 * 10) = 2 * (1024 * 1024 * 10)"
  by (simp add: reduce_volume_def wrap32_def)

text \<open>The value of \<^verbatim>\<open>bandwidth\<close> for an interval of one millisecond.\<close>

lemma bandwidth_value:
  "t0 + 1000000 = t1 \<Longrightarrow> 0 \<le> n \<Longrightarrow> n + n + n < 2 ^ 31
   \<Longrightarrow> bandwidth n t0 t1 = real_of_int (12 * n) / 10 ^ 6"
proof -
  assume t: "t0 + 1000000 = t1" and n: "0 \<le> n" "n + n + n < 2 ^ 31"
  have dt: "microseconds (t1 - t0) = 1000"
    using t by (auto simp: microseconds_def ticks_per_microsecond_def)
  have "wrap32 (n + n) = n + n" using n by (simp add: wrap32_def)
  moreover have "wrap32 (n + n + n) = n + n + n" using n by (simp add: wrap32_def)
  ultimately have "bytes_moved n = 12 * n"
    using n by (simp add: bytes_moved_def size_t_def sizeof_float_def)
  then show ?thesis
    by (simp add: bandwidth_def dt)
qed

section \<open>Properties of the harness\<close>

lemma issue_append:
  "issue rt hist (xs @ ys) =
     (case issue rt hist xs of (h, None) \<Rightarrow> issue rt h ys | (h, Some e) \<Rightarrow> (h, Some e))"
  by (induction xs arbitrary: hist) simp_all

lemma issue_None: "issue rt hist cs = (h, None) \<Longrightarrow> h = hist @ cs"
proof (induction cs arbitrary: hist)
  case Nil
  then show ?case by simp
next
  case (Cons c cs)
  then have "issue rt (hist @ [c]) cs = (h, None)"
    by (simp split: if_splits)
  then have "h = (hist @ [c]) @ cs" by (rule Cons.IH)
  then show ?case by simp
qed

lemma issue_Some:
  "issue rt hist cs = (h, Some e) \<Longrightarrow> \<exists>c code. e = Cl_Error c code \<and> code \<noteq> 0"
  by (induction cs arbitrary: hist) (auto split: if_splits)

lemma issue_accepting: "issue accepting hist cs = (hist @ cs, None)"
  by (induction cs arbitrary: hist) (simp_all add: accepting_def)

lemma sample_issue:
  "issue (runtime (sample_env v accepting sync)) hist cs = (hist @ cs, None)"
  by (simp add: sample_env_def issue_accepting)

lemma sample_clock:
  "now (sample_env v rt sync) 0 \<le> now (sample_env v rt sync) 1"
  "now (sample_env v rt sync) 1 \<le> now (sample_env v rt sync) 2"
  "now (sample_env v rt sync) 2 \<le> now (sample_env v rt sync) 3"
  "now (sample_env v rt sync) 3 \<le> now (sample_env v rt sync) 4"
  by (simp_all add: sample_env_def)

lemma sample_fields:
  "runtime (sample_env v rt sync) = rt"
  "now (sample_env v rt sync) k = 1000000 * int k"
  "host_reduce (sample_env v rt sync) = serial_sum"
  "early (sample_env v rt sync) = (\<lambda>k. sync)"
  "random_value (sample_env v rt sync) = (\<lambda>i. Finite v)"
  "device_memory (sample_env v rt sync) = (\<lambda>j. 0)"
  by (simp_all add: sample_env_def)

text \<open>What \<^verbatim>\<open>profile_reduce\<close> returns once the result has been read back.\<close>

lemma profile_reduce_returns:
  assumes "issue (runtime env) hist (reduce_calls n 128 (n div 128)) = (h, None)"
    and "run_kernel env (random_vector env n) n 128 (n div 128) = Some result"
    and "\<not> \<bar>host_reduce env (random_vector env n) - result ! 0\<bar> > Finite 1000"
  shows "profile_reduce env hist n
         = (h, Returned \<lparr>name = ''reduce'',
              dt = [now env 1 - now env 0, now env 4 - now env 1, now env 2 - now env 1,
                    now env 3 - now env 2, now env 4 - now env 3],
              bw = [bandwidth (reduce_volume (int n)) (now env 0) (now env 1),
                    bandwidth (reduce_volume (int n)) (now env 2) (now env 3)]\<rparr>)"
  using assms by (simp add: profile_reduce_def Let_def)

lemma profile_reduce_raises:
  assumes "issue (runtime env) hist (reduce_calls n 128 (n div 128)) = (h, None)"
    and "run_kernel env (random_vector env n) n 128 (n div 128) = Some result"
    and "\<bar>host_reduce env (random_vector env n) - result ! 0\<bar> > Finite 1000"
  shows "profile_reduce env hist n
         = (h, Raised (Runtime_Error
                 [Text ''Invalid value: '', Single (result ! 0), Text '', expected: '',
                  Single (host_reduce env (random_vector env n))]))"
  using assms by (simp add: profile_reduce_def Let_def)

lemma reduce_volume_128: "reduce_volume 128 = 16640"
  by (simp add: reduce_volume_def wrap32_def)

text \<open>A run over 128 ones, one work-group.\<close>

lemma sample_kernel_128:
  "run_kernel (sample_env 1 accepting True)
     (random_vector (sample_env 1 accepting True) 128) 128 128 (128 div 128)
   = Some [Finite 128]"
  by code_simp

lemma sample_expected_128:
  "host_reduce (sample_env 1 accepting True)
     (random_vector (sample_env 1 accepting True) 128) = Finite 128"
  by code_simp

lemma sample_within_128: "\<not> \<bar>Finite 128 - Finite 128\<bar> > Finite 1000"
  by code_simp

lemma sample_run_128:
  "profile_reduce (sample_env 1 accepting True) [] 128
   = ([Flush, Create_Kernel ''reduce'', Copy_In 128, Create_Buffer 4, Set_Arg 0, Set_Arg 1,
       Flush, Enqueue_NDRange_Kernel 128 128, Flush, Copy_Out 1],
      Returned \<lparr>name = ''reduce'',
                dt = [1000000, 3000000, 1000000, 1000000, 1000000],
                bw = [bandwidth 16640 0 1000000, bandwidth 16640 2000000 3000000]\<rparr>)"
proof -
  have w: "\<not> \<bar>host_reduce (sample_env 1 accepting True)
                 (random_vector (sample_env 1 accepting True) 128) - [Finite 128] ! 0\<bar>
             > Finite 1000"
    unfolding sample_expected_128 nth_Cons_0 by (rule sample_within_128)
  show ?thesis
    unfolding profile_reduce_returns [OF sample_issue sample_kernel_128 w]
    by (simp add: sample_fields reduce_volume_128 reduce_calls_def sizeof_float_def)
qed

text \<open>
  With work-group 0 the last to publish, a run over a positive multiple of 128 zeros
  passes the check.
\<close>

lemma float_zero_plus: "(0::float) + 0 = 0"
  by (simp add: zero_float_def plus_float_def round32_def round_half_even_def
      overflow_threshold_def)

lemma float_zero_within: "\<not> \<bar>(0::float) - 0\<bar> > Finite 1000"
  by (simp add: zero_float_def minus_float_def abs_float_def less_float_def round32_def
      round_half_even_def overflow_threshold_def)

lemma serial_sum_zeros: "\<forall>x\<in>set a. x = 0 \<Longrightarrow> serial_sum a = 0"
proof -
  have "\<forall>x\<in>set a. x = 0 \<Longrightarrow> fold (\<lambda>x sum. sum + x) a (0::float) = 0"
    by (induction a) (simp_all add: float_zero_plus)
  then show "\<forall>x\<in>set a. x = 0 \<Longrightarrow> serial_sum a = 0"
    by (simp add: serial_sum_def)
qed

lemma profile_reduce_zeros_passes:
  assumes "n mod 128 = 0" "0 < n"
    and "issue (runtime env) hist (reduce_calls n 128 (n div 128)) = (h, None)"
    and "early env = (\<lambda>k. True)" "random_value env = (\<lambda>i. 0)"
    and "host_reduce env = serial_sum"
  shows "\<exists>r. profile_reduce env hist n = (h, Returned r)"
proof -
  let ?a = "random_vector env n"
  let ?l = "n div 128"
  let ?mem = "map (device_memory env) [0..<?l]"
  have l: "0 < ?l" "n = ?l * 128" using assms(1,2) by auto
  have p: "(128::nat) = 2 ^ 7" by simp
  have a: "?a ! i = 0" if "i < n" for i
    using that by (simp add: random_vector_def assms(5))
  have k: "run_kernel env ?a n 128 ?l
             = Some (reduce (run_order (\<lambda>k. True) ?l) ?a 128 ?l ?mem)"
    using assms(1,2,4) by (simp add: run_kernel_def BUFFSIZE_def random_vector_def Let_def)
  have g: "group_sum ?a 128 j = 0" if "j < ?l" for j
  proof -
    have "Suc j * 128 \<le> ?l * 128"
      using \<open>j < ?l\<close> by simp
    then have "Suc j * 128 \<le> n"
      using l(2) by simp
    then have "j * 128 + t < n" if "t < 128" for t
      using that by simp
    then have "group_sum ?a (2 ^ 7) j = 0"
      by (intro group_sum_zeros [OF float_zero_plus]) (simp add: a)
    then show ?thesis by (simp only: p)
  qed
  have "reduce (run_order (\<lambda>k. True) ?l) ?a 128 ?l ?mem ! 0
          = combine ?l (map (group_sum ?a 128) [0..<?l])"
    using l(1) by (intro reduce_slot_0_synchronised) simp_all
  also have "\<dots> = 0"
    by (rule combine_zeros [OF float_zero_plus]) (simp add: g)
  finally have s: "reduce (run_order (\<lambda>k. True) ?l) ?a 128 ?l ?mem ! 0 = 0" .
  have e: "serial_sum ?a = 0"
    by (rule serial_sum_zeros) (simp add: random_vector_def assms(5))
  show ?thesis
    by (simp add: profile_reduce_def Let_def assms(3,6) k s e float_zero_within)
qed

text \<open>The row that \<^verbatim>\<open>profile_reduce\<close> prints, when it prints one.\<close>

lemma profile_reduce_row:
  assumes "profile_reduce env hist n = (h, Returned r)"
  shows "r = \<lparr>name = ''reduce'',
              dt = [now env 1 - now env 0, now env 4 - now env 1, now env 2 - now env 1,
                    now env 3 - now env 2, now env 4 - now env 3],
              bw = [bandwidth (reduce_volume (int n)) (now env 0) (now env 1),
                    bandwidth (reduce_volume (int n)) (now env 2) (now env 3)]\<rparr>"
  using assms
  by (auto simp: profile_reduce_def Let_def split: prod.splits option.splits if_splits)

text \<open>
  Claim C2 (both bandwidths that \<^verbatim>\<open>profile_reduce\<close> reports are
  \<open>(3 \<times> N \<times> elementSize) / elapsedTime\<close>, \<open>N\<close> the length of the input) does not hold
  of the harness: it calls \<^verbatim>\<open>bandwidth\<close> with \<^verbatim>\<open>n*n+n+n\<close> in place of \<^verbatim>\<open>n\<close>. For 128
  elements and intervals of one millisecond both calls receive 16640 and both reported
  values are 0.19968 GB/s, where the formula gives 0.001536 GB/s.
\<close>

theorem profile_reduce_bandwidth_volume:
  "snd (profile_reduce (sample_env 1 accepting True) [] 128)
     = Returned \<lparr>name = ''reduce'',
                 dt = [1000000, 3000000, 1000000, 1000000, 1000000],
                 bw = [bandwidth 16640 0 1000000, bandwidth 16640 2000000 3000000]\<rparr>
   \<and> bandwidth 16640 0 1000000 = 199680 / 10 ^ 6
   \<and> bandwidth 16640 2000000 3000000 = 199680 / 10 ^ 6
   \<and> specified_bandwidth 128 1000 = 1536 / 10 ^ 6"
proof (intro conjI)
  show "snd (profile_reduce (sample_env 1 accepting True) [] 128)
     = Returned \<lparr>name = ''reduce'',
                 dt = [1000000, 3000000, 1000000, 1000000, 1000000],
                 bw = [bandwidth 16640 0 1000000, bandwidth 16640 2000000 3000000]\<rparr>"
    by (simp add: sample_run_128)
  show "bandwidth 16640 0 1000000 = 199680 / 10 ^ 6"
    by (simp add: bandwidth_value)
  show "bandwidth 16640 2000000 3000000 = 199680 / 10 ^ 6"
    by (simp add: bandwidth_value)
  show "specified_bandwidth 128 1000 = 1536 / 10 ^ 6"
    by (simp add: specified_bandwidth_def sizeof_float_def)
qed

text \<open>
  Claim C3 as stated (the validation error is thrown exactly when the absolute difference
  between the kernel's result and the serial reference exceeds the tolerance) does not
  hold of the difference of the two numbers, because the program subtracts in \<^verbatim>\<open>float\<close>.
  For the 128 numbers of \<open>absorbing\<close> the reference is 1000 and the kernel's result is
  \<open>-2\<^sup>-\<^sup>2\<^sup>0\<close>; their difference exceeds 1000, but in \<^verbatim>\<open>float\<close> it rounds to 1000, and
  the program prints its row.
\<close>

lemma absorbing_fields:
  "runtime absorbing = accepting"
  "now absorbing k = 1000000 * int k"
  by (simp_all add: absorbing_def sample_env_def)

lemma absorbing_issue: "issue (runtime absorbing) hist cs = (hist @ cs, None)"
  by (simp add: absorbing_fields issue_accepting)

lemma absorbing_expected: "host_reduce absorbing (random_vector absorbing 128) = Finite 1000"
  by code_simp

lemma absorbing_kernel:
  "run_kernel absorbing (random_vector absorbing 128) 128 128 (128 div 128)
   = Some [Finite (- (1 / 2 ^ 20))]"
  by code_simp

lemma absorbing_within: "\<not> \<bar>Finite 1000 - Finite (- (1 / 2 ^ 20))\<bar> > Finite 1000"
  by code_simp

theorem profile_reduce_rounds_difference:
  "host_reduce absorbing (random_vector absorbing 128) = Finite 1000
   \<and> run_kernel absorbing (random_vector absorbing 128) 128 128 (128 div 128)
       = Some [Finite (- (1 / 2 ^ 20))]
   \<and> \<bar>(1000 :: real) - (- (1 / 2 ^ 20))\<bar> > 1000
   \<and> snd (profile_reduce absorbing [] 128)
       = Returned \<lparr>name = ''reduce'',
                   dt = [1000000, 3000000, 1000000, 1000000, 1000000],
                   bw = [bandwidth 16640 0 1000000, bandwidth 16640 2000000 3000000]\<rparr>"
proof (intro conjI)
  show "host_reduce absorbing (random_vector absorbing 128) = Finite 1000"
    by (rule absorbing_expected)
  show "run_kernel absorbing (random_vector absorbing 128) 128 128 (128 div 128)
          = Some [Finite (- (1 / 2 ^ 20))]"
    by (rule absorbing_kernel)
  show "\<bar>(1000 :: real) - (- (1 / 2 ^ 20))\<bar> > 1000"
    by simp
  have w: "\<not> \<bar>host_reduce absorbing (random_vector absorbing 128)
                 - [Finite (- (1 / 2 ^ 20))] ! 0\<bar> > Finite 1000"
    unfolding absorbing_expected nth_Cons_0 by (rule absorbing_within)
  show "snd (profile_reduce absorbing [] 128)
       = Returned \<lparr>name = ''reduce'',
                   dt = [1000000, 3000000, 1000000, 1000000, 1000000],
                   bw = [bandwidth 16640 0 1000000, bandwidth 16640 2000000 3000000]\<rparr>"
    unfolding profile_reduce_returns [OF absorbing_issue absorbing_kernel w]
    by (simp add: absorbing_fields reduce_volume_128)
qed

text \<open>
  Claim C3 as amended: \<^verbatim>\<open>profile_reduce\<close> throws the validation error exactly when it
  has read back a result for which the difference \<^verbatim>\<open>expected_result - sum\<close>, computed in
  \<^verbatim>\<open>float\<close>, has an absolute value greater than 1000, and the message of the error
  holds both numbers, the computed one first; it gets as far as printing its row exactly
  when it has read back a result for which that is not so. For two finite numbers the
  test is on their difference rounded to \<^verbatim>\<open>float\<close>: it holds when the rounded difference
  is infinite or exceeds 1000 in absolute value.
\<close>

theorem profile_reduce_validation:
  "(snd (profile_reduce env hist n) = Raised (Runtime_Error msg))
   = (\<exists>hist' result.
        issue (runtime env) hist (reduce_calls n 128 (n div 128)) = (hist', None)
        \<and> run_kernel env (random_vector env n) n 128 (n div 128) = Some result
        \<and> \<bar>host_reduce env (random_vector env n) - result ! 0\<bar> > Finite 1000
        \<and> msg = [Text ''Invalid value: '', Single (result ! 0),
                  Text '', expected: '', Single (host_reduce env (random_vector env n))])
   \<and> (\<exists>r. snd (profile_reduce env hist n) = Returned r)
   = (\<exists>hist' result.
        issue (runtime env) hist (reduce_calls n 128 (n div 128)) = (hist', None)
        \<and> run_kernel env (random_vector env n) n 128 (n div 128) = Some result
        \<and> \<not> \<bar>host_reduce env (random_vector env n) - result ! 0\<bar> > Finite 1000)
   \<and> (\<bar>Finite e - Finite s\<bar> > Finite 1000)
   = (case round32 (e - s) of
        Finite d \<Rightarrow> 1000 < \<bar>d\<bar> | Infinity up \<Rightarrow> True | NaN \<Rightarrow> False)"
proof (intro conjI)
  show "(snd (profile_reduce env hist n) = Raised (Runtime_Error msg))
   = (\<exists>hist' result.
        issue (runtime env) hist (reduce_calls n 128 (n div 128)) = (hist', None)
        \<and> run_kernel env (random_vector env n) n 128 (n div 128) = Some result
        \<and> \<bar>host_reduce env (random_vector env n) - result ! 0\<bar> > Finite 1000
        \<and> msg = [Text ''Invalid value: '', Single (result ! 0),
                  Text '', expected: '', Single (host_reduce env (random_vector env n))])"
    by (auto simp: profile_reduce_def Let_def split: prod.splits option.splits
        dest: issue_Some)
  show "(\<exists>r. snd (profile_reduce env hist n) = Returned r)
   = (\<exists>hist' result.
        issue (runtime env) hist (reduce_calls n 128 (n div 128)) = (hist', None)
        \<and> run_kernel env (random_vector env n) n 128 (n div 128) = Some result
        \<and> \<not> \<bar>host_reduce env (random_vector env n) - result ! 0\<bar> > Finite 1000)"
    by (auto simp: profile_reduce_def Let_def split: prod.splits option.splits
        dest: issue_Some)
  show "(\<bar>Finite e - Finite s\<bar> > Finite 1000)
   = (case round32 (e - s) of
        Finite d \<Rightarrow> 1000 < \<bar>d\<bar> | Infinity up \<Rightarrow> True | NaN \<Rightarrow> False)"
    by (simp add: minus_float_def abs_float_def less_float_def split: float.splits)
qed

text \<open>
  A run over 256 zeros in which work-group 0 runs first and the result buffer holds 5000
  beforehand reads back 5000 against a reference of 0 and throws; the run over 128 ones
  prints its row.
\<close>

lemma stale_fields:
  "runtime stale = accepting"
  "early stale = (\<lambda>k. False)"
  "random_value stale = (\<lambda>i. 0)"
  "host_reduce stale = serial_sum"
  "device_memory stale = (\<lambda>j. Finite 5000)"
  by (simp_all add: stale_def sample_env_def zero_float_def)

lemma stale_issue: "issue (runtime stale) hist cs = (hist @ cs, None)"
  by (simp add: stale_fields issue_accepting)

lemma stale_sum: "(0::float) + 0 + Finite 5000 = Finite 5000"
  by code_simp

lemma stale_exceeds: "\<bar>(0::float) - Finite 5000\<bar> > Finite 1000"
  by code_simp

lemma stale_kernel:
  "\<exists>result. run_kernel stale (random_vector stale 256) 256 128 (256 div 128) = Some result
            \<and> result ! 0 = Finite 5000"
proof -
  let ?a = "random_vector stale 256"
  let ?mem = "[Finite 5000, Finite 5000]"
  have mem: "map (\<lambda>j. Finite 5000) [0..<2] = ?mem"
    by (simp add: numeral_2_eq_2)
  have k: "run_kernel stale ?a 256 128 (256 div 128)
           = Some (reduce (run_order (\<lambda>k. False) 2) ?a 128 2 ?mem)"
    by (simp add: run_kernel_def BUFFSIZE_def random_vector_def Let_def stale_fields mem)
  have "group_sum ?a (2 ^ 7) 0 = 0"
    by (rule group_sum_zeros [OF float_zero_plus])
       (simp add: random_vector_def stale_fields)
  then have g: "group_sum ?a 128 0 = 0" by simp
  have "reduce (run_order (\<lambda>k. False) 2) ?a 128 2 ?mem ! 0
        = combine 2 (?mem[0 := group_sum ?a 128 0])"
    by (rule reduce_slot_0_unsynchronised) simp
  also have "\<dots> = Finite 5000"
    by (simp add: g combine_def numeral_2_eq_2 stale_sum)
  finally show ?thesis using k by simp
qed

lemma stale_expected: "host_reduce stale (random_vector stale 256) = 0"
  by (simp add: stale_fields serial_sum_zeros random_vector_def)

theorem profile_reduce_validation_witness:
  "snd (profile_reduce stale [] 256)
     = Raised (Runtime_Error [Text ''Invalid value: '', Single (Finite 5000),
                              Text '', expected: '', Single 0])
   \<and> (\<exists>r. snd (profile_reduce (sample_env 1 accepting True) [] 128) = Returned r)"
proof
  obtain result
    where k: "run_kernel stale (random_vector stale 256) 256 128 (256 div 128) = Some result"
      and r: "result ! 0 = Finite 5000"
    using stale_kernel by blast
  have x: "\<bar>host_reduce stale (random_vector stale 256) - result ! 0\<bar> > Finite 1000"
    unfolding stale_expected r by (rule stale_exceeds)
  have m: "[Text ''Invalid value: '', Single (Finite 5000), Text '', expected: '', Single 0]
           = [Text ''Invalid value: '', Single (result ! 0), Text '', expected: '',
              Single (host_reduce stale (random_vector stale 256))]"
    by (simp only: stale_expected r)
  show "snd (profile_reduce stale [] 256)
     = Raised (Runtime_Error [Text ''Invalid value: '', Single (Finite 5000),
                              Text '', expected: '', Single 0])"
    using stale_issue k x m
    by (intro profile_reduce_validation [THEN conjunct1, THEN iffD2]) blast
  have w: "\<not> \<bar>host_reduce (sample_env 1 accepting True)
                 (random_vector (sample_env 1 accepting True) 128) - [Finite 128] ! 0\<bar>
             > Finite 1000"
    unfolding sample_expected_128 nth_Cons_0 by (rule sample_within_128)
  show "\<exists>r. snd (profile_reduce (sample_env 1 accepting True) [] 128) = Returned r"
    using sample_issue sample_kernel_128 w
    by (intro profile_reduce_validation [THEN conjunct2, THEN conjunct1, THEN iffD2]) blast
qed

text \<open>
  Claim C5 as stated (a size that 128 does not divide is rejected before the dispatch with
  a configuration error) does not hold: \<^verbatim>\<open>profile_reduce\<close> has no check of its own. With
  a runtime that accepts every call, the run for \<open>n = 1000\<close> allocates 7 slots, dispatches
  1000 work-items in groups of 128, reads the buffer back, and is never rejected; what
  the kernel does then is not defined.
\<close>

theorem profile_reduce_no_divisibility_check:
  "profile_reduce (sample_env 1 accepting True) [] 1000
   = ([Flush, Create_Kernel ''reduce'', Copy_In 1000, Create_Buffer 28, Set_Arg 0, Set_Arg 1,
       Flush, Enqueue_NDRange_Kernel 1000 128, Flush, Copy_Out 7],
      Undefined)"
  by (simp add: profile_reduce_def Let_def reduce_calls_def sizeof_float_def run_kernel_def
      sample_fields accepting_def)

text \<open>
  Claim C5 as amended: for every size \<open>n\<close>, divisible by 128 or not, once the calls that
  set up the buffers of \<open>n\<close> floats and \<open>n div 128\<close> slots have succeeded,
  \<^verbatim>\<open>profile_reduce\<close> submits the dispatch of \<open>n\<close> work-items in groups of 128; and when
  the runtime answers that dispatch with an error code, the run ends there with a
  \<^verbatim>\<open>cl::Error\<close> that carries the dispatch and the code: nothing is read back, checked
  or printed.
\<close>

theorem profile_reduce_dispatch_unchecked:
  assumes "issue (runtime env) hist
             [Flush, Create_Kernel ''reduce'', Copy_In n, Create_Buffer (4 * (n div 128)),
              Set_Arg 0, Set_Arg 1, Flush] = (h, None)"
  shows "(\<exists>rest. fst (profile_reduce env hist n) = h @ Enqueue_NDRange_Kernel n 128 # rest)
    \<and> (runtime env h (Enqueue_NDRange_Kernel n 128) \<noteq> 0 \<longrightarrow>
         profile_reduce env hist n
         = (h @ [Enqueue_NDRange_Kernel n 128],
            Raised (Cl_Error (Enqueue_NDRange_Kernel n 128)
                      (runtime env h (Enqueue_NDRange_Kernel n 128)))))"
proof -
  let ?pre = "[Flush, Create_Kernel ''reduce'', Copy_In n, Create_Buffer (4 * (n div 128)),
               Set_Arg 0, Set_Arg 1, Flush]"
  let ?post = "[Flush, Copy_Out (n div 128)]"
  let ?d = "Enqueue_NDRange_Kernel n 128"
  have calls: "reduce_calls n 128 (n div 128) = ?pre @ ?d # ?post"
    by (simp add: reduce_calls_def sizeof_float_def)
  have i: "issue (runtime env) hist (reduce_calls n 128 (n div 128))
             = issue (runtime env) h (?d # ?post)"
    unfolding calls issue_append assms by simp
  have 2: "\<exists>rest. fst (profile_reduce env hist n) = h @ ?d # rest"
  proof (cases "runtime env h ?d = 0")
    case True
    obtain h' e where r: "issue (runtime env) (h @ [?d]) ?post = (h', e)"
      by (cases "issue (runtime env) (h @ [?d]) ?post")
    then have "\<exists>rest. h' = h @ ?d # rest"
      by (auto split: if_splits)
    with True r show ?thesis
      by (auto simp: profile_reduce_def Let_def i split: option.splits)
  next
    case False
    then show ?thesis
      by (simp add: profile_reduce_def Let_def i)
  qed
  have 3: "runtime env h ?d \<noteq> 0 \<longrightarrow>
         profile_reduce env hist n = (h @ [?d], Raised (Cl_Error ?d (runtime env h ?d)))"
    by (simp add: profile_reduce_def Let_def i)
  from 2 3 show ?thesis by blast
qed

lemma uniform_only_prefix:
  "issue (runtime (sample_env 1 uniform_only True)) []
     [Flush, Create_Kernel ''reduce'', Copy_In 1000, Create_Buffer (4 * (1000 div 128)),
      Set_Arg 0, Set_Arg 1, Flush]
   = ([Flush, Create_Kernel ''reduce'', Copy_In 1000, Create_Buffer (4 * (1000 div 128)),
       Set_Arg 0, Set_Arg 1, Flush], None)"
  by (simp add: sample_env_def uniform_only_def)

text \<open>
  With a runtime that refuses dispatches of uneven size, the run for \<open>n = 1000\<close> ends at the
  dispatch call with that runtime's error.
\<close>

theorem profile_reduce_dispatch_unchecked_witness:
  "profile_reduce (sample_env 1 uniform_only True) [] 1000
     = ([Flush, Create_Kernel ''reduce'', Copy_In 1000, Create_Buffer 28, Set_Arg 0,
         Set_Arg 1, Flush, Enqueue_NDRange_Kernel 1000 128],
        Raised (Cl_Error (Enqueue_NDRange_Kernel 1000 128) (- 54)))"
  using profile_reduce_dispatch_unchecked [OF uniform_only_prefix]
  by (simp add: sample_env_def uniform_only_def)

text \<open>
  Claim C6 as stated (in every run each of the five durations is non-negative) does not
  hold: the durations are differences of readings of \<^verbatim>\<open>high_resolution_clock\<close>, which
  need not be steady. When the clock is set back by 4 milliseconds between the first
  two readings, the first duration is \<open>-4\<close> milliseconds.
\<close>

theorem profile_reduce_clock_set_back:
  "snd (profile_reduce set_back [] 128)
   = Returned \<lparr>name = ''reduce'',
               dt = [- 4000000, 3000000, 1000000, 1000000, 1000000],
               bw = [bandwidth 16640 5000000 1000000, bandwidth 16640 2000000 3000000]\<rparr>"
proof -
  let ?E = "sample_env 1 accepting True"
  have f: "runtime set_back = accepting" "random_vector set_back 128 = random_vector ?E 128"
    "host_reduce set_back = host_reduce ?E"
    "run_kernel set_back = run_kernel ?E"
    "now set_back 0 = 5000000" "now set_back 1 = 1000000" "now set_back 2 = 2000000"
    "now set_back 3 = 3000000" "now set_back 4 = 4000000"
    by (simp_all add: set_back_def sample_env_def random_vector_def run_kernel_def fun_eq_iff)
  have i: "issue (runtime set_back) [] (reduce_calls 128 128 (128 div 128))
           = ([] @ reduce_calls 128 128 (128 div 128), None)"
    by (simp only: f issue_accepting)
  have k: "run_kernel set_back (random_vector set_back 128) 128 128 (128 div 128)
           = Some [Finite 128]"
    by (simp only: f sample_kernel_128)
  have w: "\<not> \<bar>host_reduce set_back (random_vector set_back 128) - [Finite 128] ! 0\<bar>
             > Finite 1000"
    unfolding f sample_expected_128 nth_Cons_0 by (rule sample_within_128)
  show ?thesis
    unfolding profile_reduce_returns [OF i k w]
    by (simp add: set_back_def sample_env_def reduce_volume_128)
qed

text \<open>
  Claim C6 as amended: in a run of \<^verbatim>\<open>profile_reduce\<close> that prints its row and whose
  five clock readings do not decrease from one to the next, each of the five durations
  is non-negative, as a duration and as the microsecond count that is printed, and
  copy-in plus kernel plus copy-out is at most the total accelerator phase, again in
  both units.
\<close>

theorem profile_reduce_durations:
  assumes "profile_reduce env hist n = (h, Returned r)"
    and "now env 0 \<le> now env 1" "now env 1 \<le> now env 2"
    and "now env 2 \<le> now env 3" "now env 3 \<le> now env 4"
  shows "length (dt r) = 5
    \<and> (\<forall>d \<in> set (dt r). 0 \<le> d \<and> 0 \<le> microseconds d)
    \<and> dt r ! 2 + dt r ! 3 + dt r ! 4 \<le> dt r ! 1
    \<and> microseconds (dt r ! 2) + microseconds (dt r ! 3) + microseconds (dt r ! 4)
        \<le> microseconds (dt r ! 1)"
proof -
  have r: "dt r = [now env 1 - now env 0, now env 4 - now env 1, now env 2 - now env 1,
                   now env 3 - now env 2, now env 4 - now env 3]"
    using profile_reduce_row [OF assms(1)] by simp
  have "(now env 2 - now env 1) div 1000 + (now env 3 - now env 2) div 1000
          + (now env 4 - now env 3) div 1000 \<le> (now env 4 - now env 1) div 1000"
    by linarith
  with assms(2-) show ?thesis
    by (simp add: r microseconds_nonneg microseconds_of_nonneg pos_imp_zdiv_nonneg_iff)
qed

text \<open>The three accelerator parts add up to the accelerator total exactly.\<close>

lemma profile_reduce_durations_exact:
  assumes "profile_reduce env hist n = (h, Returned r)"
  shows "dt r ! 2 + dt r ! 3 + dt r ! 4 = dt r ! 1"
  using profile_reduce_row [OF assms] by simp

text \<open>The run over 128 ones, with the clock read once per millisecond.\<close>

theorem profile_reduce_durations_witness:
  "0 \<le> microseconds 1000000 \<and> 0 \<le> microseconds 3000000
   \<and> (1000000 :: int) + 1000000 + 1000000 \<le> 3000000
   \<and> microseconds 1000000 + microseconds 1000000 + microseconds 1000000
        \<le> microseconds 3000000"
  using profile_reduce_durations [OF sample_run_128 sample_clock]
  by simp

section \<open>Properties of the program\<close>

lemma dump_build_logs_all:
  assumes "\<And>k. k < length ds \<Longrightarrow>
             runtime env (hist @ map Get_Build_Log (take k ds)) (Get_Build_Log (ds ! k)) = 0"
  shows "dump_build_logs env hist ds out
         = (hist @ map Get_Build_Log ds, out @ map (\<lambda>dev. Text (build_log env dev)) ds, None)"
  using assms
proof (induction ds arbitrary: hist out)
  case Nil
  then show ?case by simp
next
  case (Cons d ds)
  have d: "runtime env hist (Get_Build_Log d) = 0"
    using Cons.prems [of 0] by simp
  have "runtime env ((hist @ [Get_Build_Log d]) @ map Get_Build_Log (take k ds))
          (Get_Build_Log (ds ! k)) = 0" if "k < length ds" for k
    using Cons.prems [of "Suc k"] that by simp
  from Cons.IH [OF this] d show ?case
    by (simp add: Let_def)
qed

lemma dump_build_logs_fails:
  assumes "j < length ds"
    and "\<And>k. k < j \<Longrightarrow>
           runtime env (hist @ map Get_Build_Log (take k ds)) (Get_Build_Log (ds ! k)) = 0"
    and "runtime env (hist @ map Get_Build_Log (take j ds)) (Get_Build_Log (ds ! j)) \<noteq> 0"
  shows "dump_build_logs env hist ds out
         = (hist @ map Get_Build_Log (take (Suc j) ds),
            out @ map (\<lambda>dev. Text (build_log env dev)) (take j ds),
            Some (Cl_Error (Get_Build_Log (ds ! j))
                    (runtime env (hist @ map Get_Build_Log (take j ds))
                       (Get_Build_Log (ds ! j)))))"
  using assms
proof (induction ds arbitrary: hist out j)
  case Nil
  then show ?case by simp
next
  case (Cons d ds)
  show ?case
  proof (cases j)
    case 0
    with Cons.prems(3) show ?thesis by (simp add: Let_def)
  next
    case (Suc i)
    have d: "runtime env hist (Get_Build_Log d) = 0"
      using Cons.prems(2) [of 0] Suc by simp
    have i: "i < length ds" using Cons.prems(1) Suc by simp
    have ok: "runtime env ((hist @ [Get_Build_Log d]) @ map Get_Build_Log (take k ds))
          (Get_Build_Log (ds ! k)) = 0" if "k < i" for k
      using Cons.prems(2) [of "Suc k"] that Suc by simp
    have bad: "runtime env ((hist @ [Get_Build_Log d]) @ map Get_Build_Log (take i ds))
          (Get_Build_Log (ds ! i)) \<noteq> 0"
      using Cons.prems(3) Suc by simp
    from Cons.IH [OF i ok bad] d Suc show ?thesis
      by (simp add: Let_def)
  qed
qed

lemma diagnostic_nonempty: "diagnostic e \<noteq> []"
  by (cases e) simp_all

lemma main_try_Returned:
  assumes "main_try env = (h, err, Returned code)"
  shows "(code = 0 \<and> err = [])
         \<or> (code = 1 \<and> err = [Text ''Unable to find OpenCL platforms\<newline>''])"
  using assms unfolding main_try_def
  by (simp del: issue.simps
      split: prod.splits option.splits list.splits if_splits outcome.splits)

lemma main_codes:
  assumes "main env = Some (code, err)"
  shows "(code = 0 \<or> code = 1) \<and> (code = 0 \<longrightarrow> err = []) \<and> (code = 1 \<longrightarrow> err \<noteq> [])"
proof -
  obtain h err' res where t: "main_try env = (h, err', res)"
    by (cases "main_try env") auto
  show ?thesis
  proof (cases res)
    case (Returned c)
    with t assms have "code = c" "err = err'" by (simp_all add: main_def)
    with main_try_Returned [of env h err' c] t Returned show ?thesis by auto
  next
    case (Raised e)
    with t assms have "code = 1" "err = err' @ diagnostic e" by (auto simp: main_def)
    then show ?thesis by (simp add: diagnostic_nonempty)
  next
    case Undefined
    with t assms show ?thesis by (simp add: main_def)
  qed
qed

lemma main_no_platform:
  assumes "runtime env [] Get_Platforms = 0" "platforms env = []"
  shows "main env = Some (1, [Text ''Unable to find OpenCL platforms\<newline>''])"
  using assms by (simp add: main_def main_try_def)

lemma main_platform_call_fails:
  assumes "runtime env [] Get_Platforms \<noteq> 0"
  shows "main env = Some (1, diagnostic (Cl_Error Get_Platforms (runtime env [] Get_Platforms)))"
  using assms by (simp add: main_def main_try_def)

lemma main_setup_fails_early:
  assumes "platforms env = p # ps"
    and "issue (runtime env) []
           [Get_Platforms, Get_Platform_Name p, Create_Context, Get_Context_Devices]
         = (h', Some (Cl_Error c st))"
  shows "main env = Some (1, diagnostic (Cl_Error c st))"
  using assms(2) by (auto simp: main_def main_try_def assms(1) split: if_splits)

lemma main_setup_fails:
  assumes "platforms env = p # ps" "devices env = d # ds"
    and "issue (runtime env) []
           [Get_Platforms, Get_Platform_Name p, Create_Context, Get_Context_Devices,
            Get_Device_Name d, Create_Program] = (h', Some (Cl_Error c st))"
  shows "main env = Some (1, diagnostic (Cl_Error c st))"
  using assms(3) by (auto simp: main_def main_try_def assms(1,2) split: if_splits)

lemma main_setup:
  assumes "issue (runtime env) []
           [Get_Platforms, Get_Platform_Name p, Create_Context, Get_Context_Devices,
            Get_Device_Name d, Create_Program] = (h, None)"
  shows "runtime env [] Get_Platforms = 0"
    and "runtime env [Get_Platforms] (Get_Platform_Name p) = 0"
    and "runtime env [Get_Platforms, Get_Platform_Name p] Create_Context = 0"
    and "runtime env [Get_Platforms, Get_Platform_Name p, Create_Context] Get_Context_Devices = 0"
    and "runtime env [Get_Platforms, Get_Platform_Name p, Create_Context, Get_Context_Devices]
           (Get_Device_Name d) = 0"
    and "runtime env [Get_Platforms, Get_Platform_Name p, Create_Context, Get_Context_Devices,
           Get_Device_Name d] Create_Program = 0"
    and "h = [Get_Platforms, Get_Platform_Name p, Create_Context, Get_Context_Devices,
              Get_Device_Name d, Create_Program]"
  using assms by (auto split: if_splits)

text \<open>The \<^verbatim>\<open>try\<close> block once the build has failed.\<close>

lemma main_try_build_fails:
  assumes "platforms env = p # ps" "devices env = d # ds"
    and "issue (runtime env) []
           [Get_Platforms, Get_Platform_Name p, Create_Context, Get_Context_Devices,
            Get_Device_Name d, Create_Program] = (h, None)"
    and "runtime env h Build_Program \<noteq> 0"
  shows "main_try env
         = (case dump_build_logs env (h @ [Build_Program]) (d # ds) [] of
              (h4, out, None) \<Rightarrow>
                (h4, out, Raised (Cl_Error Build_Program (runtime env h Build_Program)))
            | (h4, out, Some e) \<Rightarrow> (h4, out, Raised e))"
proof -
  note st = main_setup [OF assms(3)]
  have b: "runtime env [Get_Platforms, Get_Platform_Name p, Create_Context, Get_Context_Devices,
              Get_Device_Name d, Create_Program] Build_Program \<noteq> 0"
    using assms(4) unfolding st(7) .
  show ?thesis
    unfolding st(7)
    by (simp add: main_try_def assms(1,2) st(1-6) b del: dump_build_logs.simps)
qed

lemma main_build_fails_all_logs:
  assumes "platforms env = p # ps" "devices env = d # ds"
    and "issue (runtime env) []
           [Get_Platforms, Get_Platform_Name p, Create_Context, Get_Context_Devices,
            Get_Device_Name d, Create_Program] = (h, None)"
    and "runtime env h Build_Program \<noteq> 0"
    and "\<And>k. k < length (d # ds) \<Longrightarrow>
           runtime env (h @ Build_Program # map Get_Build_Log (take k (d # ds)))
             (Get_Build_Log ((d # ds) ! k)) = 0"
  shows "main env = Some (1, map (\<lambda>dev. Text (build_log env dev)) (d # ds)
                            @ diagnostic (Cl_Error Build_Program (runtime env h Build_Program)))"
proof -
  have "dump_build_logs env (h @ [Build_Program]) (d # ds) []
        = ((h @ [Build_Program]) @ map Get_Build_Log (d # ds),
           [] @ map (\<lambda>dev. Text (build_log env dev)) (d # ds), None)"
    using assms(5) by (intro dump_build_logs_all) simp
  then show ?thesis
    by (simp add: main_def main_try_build_fails [OF assms(1-4)] del: dump_build_logs.simps)
qed

lemma main_build_fails_log_fetch:
  assumes "platforms env = p # ps" "devices env = d # ds"
    and "issue (runtime env) []
           [Get_Platforms, Get_Platform_Name p, Create_Context, Get_Context_Devices,
            Get_Device_Name d, Create_Program] = (h, None)"
    and "runtime env h Build_Program \<noteq> 0"
    and "j < length (d # ds)"
    and "\<And>k. k < j \<Longrightarrow>
           runtime env (h @ Build_Program # map Get_Build_Log (take k (d # ds)))
             (Get_Build_Log ((d # ds) ! k)) = 0"
    and "runtime env (h @ Build_Program # map Get_Build_Log (take j (d # ds)))
           (Get_Build_Log ((d # ds) ! j)) \<noteq> 0"
  shows "main env = Some (1, map (\<lambda>dev. Text (build_log env dev)) (take j (d # ds))
           @ diagnostic (Cl_Error (Get_Build_Log ((d # ds) ! j))
               (runtime env (h @ Build_Program # map Get_Build_Log (take j (d # ds)))
                  (Get_Build_Log ((d # ds) ! j)))))"
proof -
  have "dump_build_logs env (h @ [Build_Program]) (d # ds) []
        = ((h @ [Build_Program]) @ map Get_Build_Log (take (Suc j) (d # ds)),
           [] @ map (\<lambda>dev. Text (build_log env dev)) (take j (d # ds)),
           Some (Cl_Error (Get_Build_Log ((d # ds) ! j))
                   (runtime env ((h @ [Build_Program]) @ map Get_Build_Log (take j (d # ds)))
                      (Get_Build_Log ((d # ds) ! j)))))"
    using assms(5-7) by (intro dump_build_logs_fails) simp_all
  then show ?thesis
    by (simp add: main_def main_try_build_fails [OF assms(1-4)] del: dump_build_logs.simps)
qed

lemma main_queue_fails:
  assumes "platforms env = p # ps" "devices env = d # ds"
    and "issue (runtime env) []
           [Get_Platforms, Get_Platform_Name p, Create_Context, Get_Context_Devices,
            Get_Device_Name d, Create_Program] = (h, None)"
    and "runtime env h Build_Program = 0"
    and "runtime env (h @ [Build_Program]) Create_Queue \<noteq> 0"
  shows "main env = Some (1, diagnostic (Cl_Error Create_Queue
                               (runtime env (h @ [Build_Program]) Create_Queue)))"
proof -
  note st = main_setup [OF assms(3)]
  have b: "runtime env [Get_Platforms, Get_Platform_Name p, Create_Context, Get_Context_Devices,
              Get_Device_Name d, Create_Program] Build_Program = 0"
    using assms(4) unfolding st(7) .
  have q: "runtime env [Get_Platforms, Get_Platform_Name p, Create_Context, Get_Context_Devices,
              Get_Device_Name d, Create_Program, Build_Program] Create_Queue \<noteq> 0"
    using assms(5) unfolding st(7) by simp
  show ?thesis
    unfolding st(7)
    by (simp add: main_def main_try_def assms(1,2) st(1-6) b q)
qed

lemma main_after_queue:
  assumes "platforms env = p # ps" "devices env = d # ds"
    and "issue (runtime env) []
           [Get_Platforms, Get_Platform_Name p, Create_Context, Get_Context_Devices,
            Get_Device_Name d, Create_Program] = (h, None)"
    and "runtime env h Build_Program = 0"
    and "runtime env (h @ [Build_Program]) Create_Queue = 0"
  shows "main env = (case snd (opencl_main env (h @ [Build_Program, Create_Queue])) of
                       Returned out \<Rightarrow> Some (0, [])
                     | Raised e \<Rightarrow> Some (1, diagnostic e)
                     | Undefined \<Rightarrow> None)"
proof -
  note st = main_setup [OF assms(3)]
  have b: "runtime env [Get_Platforms, Get_Platform_Name p, Create_Context, Get_Context_Devices,
              Get_Device_Name d, Create_Program] Build_Program = 0"
    using assms(4) unfolding st(7) .
  have q: "runtime env [Get_Platforms, Get_Platform_Name p, Create_Context, Get_Context_Devices,
              Get_Device_Name d, Create_Program, Build_Program] Create_Queue = 0"
    using assms(5) unfolding st(7) by simp
  obtain h5 res where o: "opencl_main env [Get_Platforms, Get_Platform_Name p, Create_Context,
      Get_Context_Devices, Get_Device_Name d, Create_Program, Build_Program, Create_Queue]
      = (h5, res)"
    by (cases "opencl_main env [Get_Platforms, Get_Platform_Name p, Create_Context,
      Get_Context_Devices, Get_Device_Name d, Create_Program, Build_Program, Create_Queue]")
  have "main_try env = (h5, [], case res of Returned out \<Rightarrow> Returned 0 | Raised e \<Rightarrow> Raised e
                                   | Undefined \<Rightarrow> Undefined)"
    by (simp add: main_try_def assms(1,2) st(1-6) b q o split: outcome.splits)
  then show ?thesis
    unfolding st(7) by (simp add: main_def o split: outcome.splits)
qed

text \<open>
  Claim C9 as stated (a failed build ends with exit code 1 after the build log of every
  candidate device has been printed) does not hold when a build log cannot be fetched:
  fetching a log is a runtime call inside the handler, and its \<^verbatim>\<open>cl::Error\<close> leaves the
  loop. With three devices, a failing build and a second device whose log cannot be
  fetched, only the log of the first device is written, and the diagnostic is that of
  the failed fetch.
\<close>

theorem main_build_log_fetch_fails:
  "main (three_devices failing_build_and_log)
   = Some (1, [Text ''log of device'',
               Text ''OpenCL error in '', Operation (Get_Build_Log ''second''), Text ''('',
               Integer (- 33), Text '')\<newline>'',
               Text ''Search cl.h file for error code ('', Integer (- 33),
               Text '') to understand what it means:\<newline>'',
               Text ''https://github.com/KhronosGroup/OpenCL-Headers/blob/master/CL/cl.h\<newline>''])"
  by (simp add: main_def main_try_def three_devices_def sample_env_def
      failing_build_and_log_def Let_def)

text \<open>
  Claim C9 as amended. Whenever \<^verbatim>\<open>main\<close> exits, the exit code is 0 or 1; with code 0
  nothing has been written to \<^verbatim>\<open>cerr\<close>, with code 1 something has. When no platform is
  found the program writes \<open>Unable to find OpenCL platforms\<close> and exits with 1. When a
  call of the set-up fails (the platform query, the platform name, the context, its
  devices, the device name, the program object, the queue), it exits with 1 and the
  three lines that name the failed call and its status code. When the build fails, it
  writes the build logs of the devices in their order up to the first device whose log
  cannot be fetched, then the three lines, which name the build and its status code
  when every log was fetched and the failed fetch otherwise, and exits with 1. When
  set-up and build succeed, it exits with 0 if \<^verbatim>\<open>opencl_main\<close> returns, and with 1 if
  \<^verbatim>\<open>opencl_main\<close> throws: after the three lines for a \<^verbatim>\<open>cl::Error\<close>, after the message
  and a line end for a \<^verbatim>\<open>runtime_error\<close>.
\<close>

theorem main_exit_code:
  "let cl_message = (\<lambda>c st.
         [Text ''OpenCL error in '', Operation c, Text ''('', Integer st, Text '')\<newline>'',
          Text ''Search cl.h file for error code ('', Integer st,
          Text '') to understand what it means:\<newline>'',
          Text ''https://github.com/KhronosGroup/OpenCL-Headers/blob/master/CL/cl.h\<newline>'']);
       setup = [Get_Platforms, Get_Platform_Name p, Create_Context, Get_Context_Devices,
                Get_Device_Name d, Create_Program];
       fetch = (\<lambda>k. runtime env (h @ Build_Program # map Get_Build_Log (take k (d # ds)))
                        (Get_Build_Log ((d # ds) ! k)))
   in (main env = Some (code, err) \<longrightarrow>
         (code = 0 \<or> code = 1) \<and> (code = 0 \<longrightarrow> err = []) \<and> (code = 1 \<longrightarrow> err \<noteq> []))
    \<and> (runtime env [] Get_Platforms = 0 \<and> platforms env = [] \<longrightarrow>
         main env = Some (1, [Text ''Unable to find OpenCL platforms\<newline>'']))
    \<and> (runtime env [] Get_Platforms \<noteq> 0 \<longrightarrow>
         main env = Some (1, cl_message Get_Platforms (runtime env [] Get_Platforms)))
    \<and> (platforms env = p # ps
         \<and> issue (runtime env) [] (take 4 setup) = (h', Some (Cl_Error c st)) \<longrightarrow>
         main env = Some (1, cl_message c st))
    \<and> (platforms env = p # ps \<and> devices env = d # ds
         \<and> issue (runtime env) [] setup = (h', Some (Cl_Error c st)) \<longrightarrow>
         main env = Some (1, cl_message c st))
    \<and> (platforms env = p # ps \<and> devices env = d # ds
         \<and> issue (runtime env) [] setup = (h, None) \<longrightarrow>
         (runtime env h Build_Program \<noteq> 0 \<and> (\<forall>k < length (d # ds). fetch k = 0) \<longrightarrow>
            main env = Some (1, map (\<lambda>dev. Text (build_log env dev)) (d # ds)
                               @ cl_message Build_Program (runtime env h Build_Program)))
         \<and> (runtime env h Build_Program \<noteq> 0 \<and> j < length (d # ds)
              \<and> (\<forall>k < j. fetch k = 0) \<and> fetch j \<noteq> 0 \<longrightarrow>
            main env = Some (1, map (\<lambda>dev. Text (build_log env dev)) (take j (d # ds))
                               @ cl_message (Get_Build_Log ((d # ds) ! j)) (fetch j)))
         \<and> (runtime env h Build_Program = 0
              \<and> runtime env (h @ [Build_Program]) Create_Queue \<noteq> 0 \<longrightarrow>
            main env = Some (1, cl_message Create_Queue
                                  (runtime env (h @ [Build_Program]) Create_Queue)))
         \<and> (runtime env h Build_Program = 0
              \<and> runtime env (h @ [Build_Program]) Create_Queue = 0 \<longrightarrow>
            main env = (case snd (opencl_main env (h @ [Build_Program, Create_Queue])) of
                          Returned out \<Rightarrow> Some (0, [])
                        | Raised (Cl_Error c' st') \<Rightarrow> Some (1, cl_message c' st')
                        | Raised (Runtime_Error what) \<Rightarrow> Some (1, what @ [Text ''\<newline>''])
                        | Undefined \<Rightarrow> None)))"
proof -
  have a: "main env = (case snd (opencl_main env (h @ [Build_Program, Create_Queue])) of
                          Returned out \<Rightarrow> Some (0, [])
                        | Raised (Cl_Error c' st') \<Rightarrow> Some (1, diagnostic (Cl_Error c' st'))
                        | Raised (Runtime_Error what) \<Rightarrow> Some (1, what @ [Text ''\<newline>''])
                        | Undefined \<Rightarrow> None)"
    if "platforms env = p # ps" "devices env = d # ds"
      "issue (runtime env) []
           [Get_Platforms, Get_Platform_Name p, Create_Context, Get_Context_Devices,
            Get_Device_Name d, Create_Program] = (h, None)"
      "runtime env h Build_Program = 0" "runtime env (h @ [Build_Program]) Create_Queue = 0"
    using main_after_queue [OF that]
    by (simp split: outcome.splits error.splits)
  show ?thesis
    unfolding Let_def diagnostic.simps(1) [symmetric]
  proof (intro conjI impI; (elim conjE)?)
    assume "main env = Some (code, err)"
    then show "code = 0 \<or> code = 1" by (simp add: main_codes)
  next
    assume "main env = Some (code, err)" "code = 0"
    then show "err = []" using main_codes [of env code err] by simp
  next
    assume "main env = Some (code, err)" "code = 1"
    then show "err \<noteq> []" using main_codes [of env code err] by simp
  next
    assume "runtime env [] Get_Platforms = 0" "platforms env = []"
    then show "main env = Some (1, [Text ''Unable to find OpenCL platforms\<newline>''])"
      by (rule main_no_platform)
  next
    assume "runtime env [] Get_Platforms \<noteq> 0"
    then show "main env
        = Some (1, diagnostic (Cl_Error Get_Platforms (runtime env [] Get_Platforms)))"
      by (rule main_platform_call_fails)
  next
    assume "platforms env = p # ps"
      "issue (runtime env) []
         (take 4 [Get_Platforms, Get_Platform_Name p, Create_Context, Get_Context_Devices,
                  Get_Device_Name d, Create_Program]) = (h', Some (Cl_Error c st))"
    then show "main env = Some (1, diagnostic (Cl_Error c st))"
      by (intro main_setup_fails_early [of env p ps h' c st]) simp_all
  next
    assume "platforms env = p # ps" "devices env = d # ds"
      "issue (runtime env) []
         [Get_Platforms, Get_Platform_Name p, Create_Context, Get_Context_Devices,
          Get_Device_Name d, Create_Program] = (h', Some (Cl_Error c st))"
    then show "main env = Some (1, diagnostic (Cl_Error c st))"
      by (rule main_setup_fails)
  next
    assume s: "platforms env = p # ps" "devices env = d # ds"
      "issue (runtime env) []
         [Get_Platforms, Get_Platform_Name p, Create_Context, Get_Context_Devices,
          Get_Device_Name d, Create_Program] = (h, None)"
      "runtime env h Build_Program \<noteq> 0"
      and f: "\<forall>k<length (d # ds).
          runtime env (h @ Build_Program # map Get_Build_Log (take k (d # ds)))
            (Get_Build_Log ((d # ds) ! k)) = 0"
    show "main env = Some (1, map (\<lambda>dev. Text (build_log env dev)) (d # ds)
                             @ diagnostic (Cl_Error Build_Program (runtime env h Build_Program)))"
      using f by (intro main_build_fails_all_logs [OF s]) blast
  next
    assume s: "platforms env = p # ps" "devices env = d # ds"
      "issue (runtime env) []
         [Get_Platforms, Get_Platform_Name p, Create_Context, Get_Context_Devices,
          Get_Device_Name d, Create_Program] = (h, None)"
      "runtime env h Build_Program \<noteq> 0" "j < length (d # ds)"
      and f: "\<forall>k<j. runtime env (h @ Build_Program # map Get_Build_Log (take k (d # ds)))
            (Get_Build_Log ((d # ds) ! k)) = 0"
      and b: "runtime env (h @ Build_Program # map Get_Build_Log (take j (d # ds)))
            (Get_Build_Log ((d # ds) ! j)) \<noteq> 0"
    show "main env = Some (1, map (\<lambda>dev. Text (build_log env dev)) (take j (d # ds))
           @ diagnostic (Cl_Error (Get_Build_Log ((d # ds) ! j))
               (runtime env (h @ Build_Program # map Get_Build_Log (take j (d # ds)))
                  (Get_Build_Log ((d # ds) ! j)))))"
      using f b by (intro main_build_fails_log_fetch [OF s]) blast+
  next
    assume "platforms env = p # ps" "devices env = d # ds"
      "issue (runtime env) []
         [Get_Platforms, Get_Platform_Name p, Create_Context, Get_Context_Devices,
          Get_Device_Name d, Create_Program] = (h, None)"
      "runtime env h Build_Program = 0"
      "runtime env (h @ [Build_Program]) Create_Queue \<noteq> 0"
    then show "main env = Some (1, diagnostic (Cl_Error Create_Queue
                               (runtime env (h @ [Build_Program]) Create_Queue)))"
      by (rule main_queue_fails)
  next
    assume "platforms env = p # ps" "devices env = d # ds"
      "issue (runtime env) []
         [Get_Platforms, Get_Platform_Name p, Create_Context, Get_Context_Devices,
          Get_Device_Name d, Create_Program] = (h, None)"
      "runtime env h Build_Program = 0"
      "runtime env (h @ [Build_Program]) Create_Queue = 0"
    then show "main env = (case snd (opencl_main env (h @ [Build_Program, Create_Queue])) of
                          Returned out \<Rightarrow> Some (0, [])
                        | Raised (Cl_Error c' st') \<Rightarrow> Some (1, diagnostic (Cl_Error c' st'))
                        | Raised (Runtime_Error what) \<Rightarrow> Some (1, what @ [Text ''\<newline>''])
                        | Undefined \<Rightarrow> None)"
      by (rule a)
  qed
qed

lemma opencl_main_returns:
  "profile_reduce env hist (1024 * 1024 * 10) = (h, Returned r)
   \<Longrightarrow> \<exists>out. opencl_main env hist = (h, Returned out)"
  by (simp add: opencl_main_def)

lemma zeros_opencl_main:
  "\<exists>out. snd (opencl_main (sample_env 0 accepting True) hist) = Returned out"
proof -
  let ?E = "sample_env 0 accepting True"
  have "\<exists>r. profile_reduce ?E hist (1024 * 1024 * 10)
             = (hist @ reduce_calls (1024 * 1024 * 10) 128 ((1024 * 1024 * 10) div 128), Returned r)"
    by (rule profile_reduce_zeros_passes)
       (simp_all add: sample_issue, simp_all add: sample_fields zero_float_def)
  then obtain r where "profile_reduce ?E hist (1024 * 1024 * 10)
             = (hist @ reduce_calls (1024 * 1024 * 10) 128 ((1024 * 1024 * 10) div 128), Returned r)"
    by blast
  from opencl_main_returns [OF this] show ?thesis by auto
qed

lemma failing_flush_opencl_main:
  "snd (opencl_main (sample_env v failing_flush sync) hist) = Raised (Cl_Error Flush (- 36))"
  by (simp add: opencl_main_def profile_reduce_def Let_def reduce_calls_def sample_fields
      failing_flush_def)

text \<open>
  Seven runs: no platform; a context that cannot be created; a failing build with three
  devices; the same with a build log that cannot be fetched; a queue that cannot be
  created; a failing flush inside \<^verbatim>\<open>profile_reduce\<close>; and a run over zeros in which
  every call succeeds and the work-groups publish in time.
\<close>

theorem main_exit_code_witness:
  "main ((sample_env 1 accepting True)\<lparr>platforms := []\<rparr>)
     = Some (1, [Text ''Unable to find OpenCL platforms\<newline>''])
   \<and> main (sample_env 1 failing_context True)
     = Some (1, [Text ''OpenCL error in '', Operation Create_Context, Text ''('',
                 Integer (- 1), Text '')\<newline>'',
                 Text ''Search cl.h file for error code ('', Integer (- 1),
                 Text '') to understand what it means:\<newline>'',
                 Text ''https://github.com/KhronosGroup/OpenCL-Headers/blob/master/CL/cl.h\<newline>''])
   \<and> main (three_devices failing_build)
     = Some (1, [Text ''log of device'', Text ''log of second'', Text ''log of third'',
                 Text ''OpenCL error in '', Operation Build_Program, Text ''('',
                 Integer (- 11), Text '')\<newline>'',
                 Text ''Search cl.h file for error code ('', Integer (- 11),
                 Text '') to understand what it means:\<newline>'',
                 Text ''https://github.com/KhronosGroup/OpenCL-Headers/blob/master/CL/cl.h\<newline>''])
   \<and> main (three_devices failing_build_and_log)
     = Some (1, [Text ''log of device'',
                 Text ''OpenCL error in '', Operation (Get_Build_Log ''second''), Text ''('',
                 Integer (- 33), Text '')\<newline>'',
                 Text ''Search cl.h file for error code ('', Integer (- 33),
                 Text '') to understand what it means:\<newline>'',
                 Text ''https://github.com/KhronosGroup/OpenCL-Headers/blob/master/CL/cl.h\<newline>''])
   \<and> main (sample_env 1 failing_queue True)
     = Some (1, [Text ''OpenCL error in '', Operation Create_Queue, Text ''('',
                 Integer (- 6), Text '')\<newline>'',
                 Text ''Search cl.h file for error code ('', Integer (- 6),
                 Text '') to understand what it means:\<newline>'',
                 Text ''https://github.com/KhronosGroup/OpenCL-Headers/blob/master/CL/cl.h\<newline>''])
   \<and> main (sample_env 1 failing_flush True)
     = Some (1, [Text ''OpenCL error in '', Operation Flush, Text ''('',
                 Integer (- 36), Text '')\<newline>'',
                 Text ''Search cl.h file for error code ('', Integer (- 36),
                 Text '') to understand what it means:\<newline>'',
                 Text ''https://github.com/KhronosGroup/OpenCL-Headers/blob/master/CL/cl.h\<newline>''])
   \<and> main (sample_env 0 accepting True) = Some (0, [])"
proof (intro conjI)
  let ?h = "[Get_Platforms, Get_Platform_Name ''platform'', Create_Context, Get_Context_Devices,
             Get_Device_Name ''device'', Create_Program]"
  note T = main_exit_code [unfolded Let_def]
  show "main ((sample_env 1 accepting True)\<lparr>platforms := []\<rparr>)
     = Some (1, [Text ''Unable to find OpenCL platforms\<newline>''])"
    using T [where env = "(sample_env 1 accepting True)\<lparr>platforms := []\<rparr>",
             THEN conjunct2, THEN conjunct1]
    by (simp add: sample_env_def accepting_def)
  show "main (sample_env 1 failing_context True)
     = Some (1, [Text ''OpenCL error in '', Operation Create_Context, Text ''('',
                 Integer (- 1), Text '')\<newline>'',
                 Text ''Search cl.h file for error code ('', Integer (- 1),
                 Text '') to understand what it means:\<newline>'',
                 Text ''https://github.com/KhronosGroup/OpenCL-Headers/blob/master/CL/cl.h\<newline>''])"
    using T [where env = "sample_env 1 failing_context True" and p = "''platform''"
               and ps = "[]" and c = Create_Context and st = "- 1"
               and h' = "[Get_Platforms, Get_Platform_Name ''platform'', Create_Context]",
             THEN conjunct2, THEN conjunct2, THEN conjunct2, THEN conjunct1]
    by (simp add: sample_env_def failing_context_def)
  show "main (three_devices failing_build)
     = Some (1, [Text ''log of device'', Text ''log of second'', Text ''log of third'',
                 Text ''OpenCL error in '', Operation Build_Program, Text ''('',
                 Integer (- 11), Text '')\<newline>'',
                 Text ''Search cl.h file for error code ('', Integer (- 11),
                 Text '') to understand what it means:\<newline>'',
                 Text ''https://github.com/KhronosGroup/OpenCL-Headers/blob/master/CL/cl.h\<newline>''])"
    using T [where env = "three_devices failing_build" and p = "''platform''" and ps = "[]"
               and d = "''device''" and ds = "[''second'', ''third'']" and h = ?h,
             THEN conjunct2, THEN conjunct2, THEN conjunct2, THEN conjunct2, THEN conjunct2,
             THEN mp, THEN conjunct1]
    by (simp add: three_devices_def sample_env_def failing_build_def)
  show "main (three_devices failing_build_and_log)
     = Some (1, [Text ''log of device'',
                 Text ''OpenCL error in '', Operation (Get_Build_Log ''second''), Text ''('',
                 Integer (- 33), Text '')\<newline>'',
                 Text ''Search cl.h file for error code ('', Integer (- 33),
                 Text '') to understand what it means:\<newline>'',
                 Text ''https://github.com/KhronosGroup/OpenCL-Headers/blob/master/CL/cl.h\<newline>''])"
    using T [where env = "three_devices failing_build_and_log" and p = "''platform''"
               and ps = "[]" and d = "''device''" and ds = "[''second'', ''third'']"
               and h = ?h and j = 1,
             THEN conjunct2, THEN conjunct2, THEN conjunct2, THEN conjunct2, THEN conjunct2,
             THEN mp, THEN conjunct2, THEN conjunct1]
    by (simp add: three_devices_def sample_env_def failing_build_and_log_def)
  show "main (sample_env 1 failing_queue True)
     = Some (1, [Text ''OpenCL error in '', Operation Create_Queue, Text ''('',
                 Integer (- 6), Text '')\<newline>'',
                 Text ''Search cl.h file for error code ('', Integer (- 6),
                 Text '') to understand what it means:\<newline>'',
                 Text ''https://github.com/KhronosGroup/OpenCL-Headers/blob/master/CL/cl.h\<newline>''])"
    using T [where env = "sample_env 1 failing_queue True" and p = "''platform''"
               and ps = "[]" and d = "''device''" and ds = "[]" and h = ?h,
             THEN conjunct2, THEN conjunct2, THEN conjunct2, THEN conjunct2, THEN conjunct2,
             THEN mp, THEN conjunct2, THEN conjunct2, THEN conjunct1]
    by (simp add: sample_env_def failing_queue_def)
  show "main (sample_env 1 failing_flush True)
     = Some (1, [Text ''OpenCL error in '', Operation Flush, Text ''('',
                 Integer (- 36), Text '')\<newline>'',
                 Text ''Search cl.h file for error code ('', Integer (- 36),
                 Text '') to understand what it means:\<newline>'',
                 Text ''https://github.com/KhronosGroup/OpenCL-Headers/blob/master/CL/cl.h\<newline>''])"
    using T [where env = "sample_env 1 failing_flush True" and p = "''platform''"
               and ps = "[]" and d = "''device''" and ds = "[]" and h = ?h,
             THEN conjunct2, THEN conjunct2, THEN conjunct2, THEN conjunct2, THEN conjunct2,
             THEN mp, THEN conjunct2, THEN conjunct2, THEN conjunct2]
      failing_flush_opencl_main [of 1 True "?h @ [Build_Program, Create_Queue]"]
    by (simp add: sample_env_def failing_flush_def)
  show "main (sample_env 0 accepting True) = Some (0, [])"
    using T [where env = "sample_env 0 accepting True" and p = "''platform''"
               and ps = "[]" and d = "''device''" and ds = "[]" and h = ?h,
             THEN conjunct2, THEN conjunct2, THEN conjunct2, THEN conjunct2, THEN conjunct2,
             THEN mp, THEN conjunct2, THEN conjunct2, THEN conjunct2]
      zeros_opencl_main [of "?h @ [Build_Program, Create_Queue]"]
    by (auto simp: sample_env_def accepting_def)
qed

end
